theory Spec2Isabelle
  imports Main "HOL-Library.Code_Target_Nat"
begin

section \<open>JavaScript values and strings\<close>

text \<open>
  A JavaScript string is a sequence of UTF-16 code units; \<open>length\<close>, \<open>split\<close>,
  \<open>startsWith\<close> and the (non-unicode) regular expressions of the sources all work on
  code units. A code unit is modelled by its number, so every JavaScript string is a
  \<open>jsstring\<close>. \<open>lit\<close> reads an ASCII literal of the source.
\<close>

type_synonym jsstring = "nat list"

definition lit :: "string \<Rightarrow> jsstring" where
  "lit s = map of_char s"

text \<open>The JavaScript values that reach the handlers: request fields, \<open>error.code\<close>,
  \<open>error.killed\<close>, the result of \<open>parseInt\<close>. \<open>VNum n\<close> is the finite number with the
  integer value \<open>n\<close> (\<open>-0\<close> is not told from \<open>0\<close>: both are falsy, both differ from
  124, both are sent as \<open>0\<close>); \<open>VObject\<close> stands for any object or array.\<close>

datatype jsval =
    VUndefined
  | VNull
  | VBool bool
  | VNum int
  | VNaN
  | VInfinity
  | VNegInfinity
  | VStr jsstring
  | VObject

fun truthy :: "jsval \<Rightarrow> bool" where
  "truthy VUndefined = False"
| "truthy VNull = False"
| "truthy (VBool b) = b"
| "truthy (VNum n) = (n \<noteq> 0)"
| "truthy VNaN = False"
| "truthy VInfinity = True"
| "truthy VNegInfinity = True"
| "truthy (VStr s) = (s \<noteq> [])"
| "truthy VObject = True"

text \<open>\<open>a || b\<close>\<close>

definition js_or :: "jsval \<Rightarrow> jsval \<Rightarrow> jsval" where
  "js_or a b = (if truthy a then a else b)"

text \<open>\<open>typeof v === 'string'\<close>\<close>

fun is_string :: "jsval \<Rightarrow> bool" where
  "is_string (VStr s) = True"
| "is_string v = False"

section \<open>The interactive server: stripping terminal control sequences\<close>

text \<open>
  \<open>String.prototype.replace\<close> with a global regular expression and the replacement
  \<open>''\<close>: the string is scanned from the left; where the expression matches, the
  match is dropped and the scan resumes behind it; elsewhere the code unit is kept.
  A matcher returns the rest of the string behind the match it finds at the head.
  None of the four expressions matches the empty string; the length test only makes
  the recursion total for an arbitrary matcher.
\<close>

function replace_all :: "(jsstring \<Rightarrow> jsstring option) \<Rightarrow> jsstring \<Rightarrow> jsstring" where
  "replace_all m [] = []"
| "replace_all m (c # cs) =
     (case m (c # cs) of
        None \<Rightarrow> c # replace_all m cs
      | Some rest \<Rightarrow>
          if length rest \<le> length cs then replace_all m rest
          else c # replace_all m cs)"
  by pat_completeness auto
termination
  by (relation "measure (\<lambda>(m, s). length s)") auto

text \<open>\<open>/\u001B\[[0-?]*[ -\/]*[@-~]/\<close>: ESC, \<open>[\<close>, parameter bytes 0x30..0x3F,
  intermediate bytes 0x20..0x2F, one final byte 0x40..0x7E. The three classes are
  disjoint, so the greedy match never has to give a code unit back.\<close>

fun csi :: "jsstring \<Rightarrow> jsstring option" where
  "csi (c1 # c2 # r) =
     (if c1 = 27 \<and> c2 = 91 then
        (case dropWhile (\<lambda>c. 32 \<le> c \<and> c \<le> 47) (dropWhile (\<lambda>c. 48 \<le> c \<and> c \<le> 63) r) of
           [] \<Rightarrow> None
         | f # rest \<Rightarrow> if 64 \<le> f \<and> f \<le> 126 then Some rest else None)
      else None)"
| "csi s = None"

text \<open>\<open>/\u001B\][^\u0007\u001B]*(?:\u0007|\u001B\\)/\<close>: ESC, \<open>]\<close>, any run without BEL
  and ESC, then BEL or the string terminator ESC \<open>\\<close>.\<close>

fun osc :: "jsstring \<Rightarrow> jsstring option" where
  "osc (c1 # c2 # r) =
     (if c1 = 27 \<and> c2 = 93 then
        (case dropWhile (\<lambda>c. c \<noteq> 7 \<and> c \<noteq> 27) r of
           [] \<Rightarrow> None
         | t # rest \<Rightarrow>
             if t = 7 then Some rest
             else (case rest of
                     [] \<Rightarrow> None
                   | b # rest' \<Rightarrow> if t = 27 \<and> b = 92 then Some rest' else None))
      else None)"
| "osc s = None"

text \<open>\<open>.\<close> without the \<open>s\<close> flag: any code unit but the line terminators
  LF, CR, U+2028, U+2029.\<close>

definition line_terminator :: "nat \<Rightarrow> bool" where
  "line_terminator c = (c = 10 \<or> c = 13 \<or> c = 8232 \<or> c = 8233)"

text \<open>\<open>.*?\u001B\\\<close>: the lazy run stops at the first ESC \<open>\\<close>, and fails at a line
  terminator met before one.\<close>

fun lazy_to_st :: "jsstring \<Rightarrow> jsstring option" where
  "lazy_to_st [] = None"
| "lazy_to_st [c] = None"
| "lazy_to_st (c # b # r) =
     (if c = 27 \<and> b = 92 then Some r
      else if line_terminator c then None
      else lazy_to_st (b # r))"

text \<open>\<open>/\u001B[PX^_].*?\u001B\\/\<close>\<close>

fun other :: "jsstring \<Rightarrow> jsstring option" where
  "other (c1 # c2 # r) =
     (if c1 = 27 \<and> (c2 = 80 \<or> c2 = 88 \<or> c2 = 94 \<or> c2 = 95) then lazy_to_st r else None)"
| "other s = None"

text \<open>\<open>/\u0007/\<close>\<close>

fun bel :: "jsstring \<Rightarrow> jsstring option" where
  "bel (c # r) = (if c = 7 then Some r else None)"
| "bel [] = None"

text \<open>
  \<^verbatim>\<open>
  function stripAnsiSequences(raw) {
    if (typeof raw !== 'string') return raw;
    ...
    return raw.replace(csi, '').replace(osc, '').replace(other, '').replace(bel, '');
  }
  \<close>
\<close>

fun stripAnsiSequences :: "jsval \<Rightarrow> jsval" where
  "stripAnsiSequences (VStr raw) =
     VStr (replace_all bel (replace_all other (replace_all osc (replace_all csi raw))))"
| "stripAnsiSequences raw = raw"

section \<open>String operations of the batch backends\<close>

text \<open>\<open>s.startsWith(p)\<close>\<close>

definition startsWith :: "jsstring \<Rightarrow> jsstring \<Rightarrow> bool" where
  "startsWith s p = (take (length p) s = p)"

text \<open>\<open>s.split(sep)\<close> for a string separator: the pieces between the occurrences of
  \<open>sep\<close>, found from the left without overlap. \<open>cur\<close> holds the piece being read,
  reversed. (With the empty separator JavaScript splits into code units; the sources
  only split on \<open>':'\<close> and on the two code units \<open>\\<close> \<open>n\<close>.)\<close>

function split_from :: "jsstring \<Rightarrow> jsstring \<Rightarrow> jsstring \<Rightarrow> jsstring list" where
  "split_from sep cur [] = [rev cur]"
| "split_from sep cur (c # cs) =
     (if sep \<noteq> [] \<and> startsWith (c # cs) sep
      then rev cur # split_from sep [] (drop (length sep) (c # cs))
      else split_from sep (c # cur) cs)"
  by pat_completeness auto
termination
  by (relation "measure (\<lambda>(sep, cur, s). length s)") auto

definition split :: "jsstring \<Rightarrow> jsstring \<Rightarrow> jsstring list" where
  "split s sep = split_from sep [] s"

text \<open>\<open>xs.join(sep)\<close>\<close>

fun join :: "jsstring list \<Rightarrow> jsstring \<Rightarrow> jsstring" where
  "join [] sep = []"
| "join [x] sep = x"
| "join (x # y # r) sep = x @ sep @ join (y # r) sep"

text \<open>\<open>xs.slice(start, end)\<close> and \<open>xs.slice(start)\<close>: a negative index counts from the
  end, both are clamped to the array.\<close>

definition rel_index :: "int \<Rightarrow> nat \<Rightarrow> nat" where
  "rel_index k len = (if k < 0 then nat (max (int len + k) 0) else min (nat k) len)"

definition slice :: "'a list \<Rightarrow> int \<Rightarrow> int \<Rightarrow> 'a list" where
  "slice xs start end = take (rel_index end (length xs) - rel_index start (length xs))
     (drop (rel_index start (length xs)) xs)"

definition slice_from :: "'a list \<Rightarrow> int \<Rightarrow> 'a list" where
  "slice_from xs start = drop (rel_index start (length xs)) xs"

text \<open>White space and line terminators, as \<open>trim\<close> and \<open>parseInt\<close> skip them.\<close>

definition white_space :: "nat \<Rightarrow> bool" where
  "white_space c = (c = 9 \<or> c = 10 \<or> c = 11 \<or> c = 12 \<or> c = 13 \<or> c = 32 \<or> c = 160
     \<or> c = 5760 \<or> (8192 \<le> c \<and> c \<le> 8202) \<or> c = 8232 \<or> c = 8233 \<or> c = 8239
     \<or> c = 8287 \<or> c = 12288 \<or> c = 65279)"

text \<open>\<open>s.trim()\<close>\<close>

definition trim :: "jsstring \<Rightarrow> jsstring" where
  "trim s = rev (dropWhile white_space (rev (dropWhile white_space s)))"

text \<open>
  \<open>parseInt(s)\<close> without a radix: leading white space is skipped, then an optional sign,
  then \<open>0x\<close> or \<open>0X\<close> selects radix 16; the longest run of digits of the radix is read,
  and an empty run gives \<open>NaN\<close>. The result is a JavaScript number, a double: the value
  of the digits rounded to 53 significant bits, ties to even, and \<open>Infinity\<close> from
  \<open>2^1024\<close> on.
\<close>

definition digit_of :: "nat \<Rightarrow> nat" where
  "digit_of c = (if 48 \<le> c \<and> c \<le> 57 then c - 48
                 else if 97 \<le> c \<and> c \<le> 122 then c - 87
                 else if 65 \<le> c \<and> c \<le> 90 then c - 55
                 else 36)"

definition digits_value :: "nat \<Rightarrow> jsstring \<Rightarrow> nat" where
  "digits_value radix z = foldl (\<lambda>a c. a * radix + digit_of c) 0 z"

definition parse_sign :: "jsstring \<Rightarrow> int \<times> jsstring" where
  "parse_sign s = (case s of
       [] \<Rightarrow> (1, s)
     | c # r \<Rightarrow> if c = 45 then (- 1, r) else if c = 43 then (1, r) else (1, s))"

definition parse_radix :: "jsstring \<Rightarrow> nat \<times> jsstring" where
  "parse_radix s = (case s of
       c # x # r \<Rightarrow> if c = 48 \<and> (x = 120 \<or> x = 88) then (16, r) else (10, s)
     | _ \<Rightarrow> (10, s))"

text \<open>The number of low bits that do not fit into 53 significant bits.\<close>

fun excess :: "nat \<Rightarrow> nat" where
  "excess n = (if n < 2 ^ 53 then 0 else Suc (excess (n div 2)))"

declare excess.simps [simp del]

text \<open>The double nearest to a natural number, \<open>None\<close> where it is \<open>Infinity\<close>.\<close>

definition to_double :: "nat \<Rightarrow> nat option" where
  "to_double n =
     (let k = excess n;
          q = n div 2 ^ k;
          r = n mod 2 ^ k;
          q' = (if 2 * r > 2 ^ k \<or> (2 * r = 2 ^ k \<and> odd q) then q + 1 else q)
      in if q' * 2 ^ k < 2 ^ 1024 then Some (q' * 2 ^ k) else None)"

definition parseInt :: "jsstring \<Rightarrow> jsval" where
  "parseInt s =
     (case parse_sign (dropWhile white_space s) of (sign, s2) \<Rightarrow>
      case parse_radix s2 of (radix, s3) \<Rightarrow>
        let z = takeWhile (\<lambda>c. digit_of c < radix) s3
        in if z = [] then VNaN
           else (case to_double (digits_value radix z) of
                   Some v \<Rightarrow> VNum (sign * int v)
                 | None \<Rightarrow> if sign < 0 then VNegInfinity else VInfinity))"

text \<open>\<open>s.includes(p)\<close>\<close>

fun js_includes :: "jsstring \<Rightarrow> jsstring \<Rightarrow> bool" where
  "js_includes [] p = (p = [])"
| "js_includes (c # cs) p = (startsWith (c # cs) p \<or> js_includes cs p)"

text \<open>
  \<open>path.join(a, b)\<close> of the POSIX \<open>path\<close> module: the non-empty arguments are joined
  with \<open>/\<close> (47) and the result is normalised: empty segments and \<open>.\<close> are dropped,
  \<open>..\<close> removes the segment before it (or stays, in a relative path that has none
  left), and a leading and a trailing slash are kept.
\<close>

fun normalizeString :: "bool \<Rightarrow> jsstring list \<Rightarrow> jsstring list \<Rightarrow> jsstring list" where
  "normalizeString allowAboveRoot res [] = rev res"
| "normalizeString allowAboveRoot res (seg # segs) =
     (if seg = [] \<or> seg = lit ''.'' then normalizeString allowAboveRoot res segs
      else if seg = lit ''..'' then
        (case res of
           [] \<Rightarrow>
             normalizeString allowAboveRoot (if allowAboveRoot then [seg] else []) segs
         | l # res' \<Rightarrow>
             if l = lit ''..''
             then normalizeString allowAboveRoot (if allowAboveRoot then seg # res else res) segs
             else normalizeString allowAboveRoot res' segs)
      else normalizeString allowAboveRoot (seg # res) segs)"

definition normalize :: "jsstring \<Rightarrow> jsstring" where
  "normalize path =
     (if path = [] then lit ''.''
      else
        (let isAbsolute = (take 1 path = [47]);
             trailingSeparator = (drop (length path - 1) path = [47]);
             p = join (normalizeString (\<not> isAbsolute) [] (split path [47])) [47]
         in if p = [] then
              (if isAbsolute then lit ''/'' else if trailingSeparator then lit ''./'' else lit ''.'')
            else
              (let p' = (if trailingSeparator then p @ [47] else p)
               in if isAbsolute then 47 # p' else p')))"

definition path_join :: "jsstring \<Rightarrow> jsstring \<Rightarrow> jsstring" where
  "path_join a b =
     (let joined = (if a = [] then b else if b = [] then a else a @ [47] @ b)
      in if joined = [] then lit ''.'' else normalize joined)"

section \<open>The batch backends\<close>

text \<open>
  Two snapshots of the batch backend are in the repository: \<open>index.js\<close>, which runs its
  docker commands through \<open>child_process.exec\<close> and reads exit code, stdout and stderr
  of the program back from one marker-delimited output, and a later one (the second
  file of \<open>interactiveServer_20250923230807.js\<close>), which uses \<open>child_process.execFile\<close>
  and the two streams of the callback. The definitions of the first carry the suffix
  \<open>_exec\<close>, those of the second \<open>_execFile\<close>. The handler of \<open>/api/run\<close>,
  \<open>createWorkspace\<close> and \<open>cleanupWorkspace\<close> are the same text in both.
\<close>

subsection \<open>Data\<close>

text \<open>The error object of an \<open>exec\<close>/\<open>execFile\<close> callback: \<open>error.code\<close> is the exit
  status, a string such as \<open>ENOENT\<close>, or \<open>null\<close> when the child was killed by a signal;
  \<open>error.killed\<close> tells that node killed the child (its \<open>timeout\<close> option).\<close>

record exec_error =
  code :: jsval
  killed :: jsval

text \<open>The arguments \<open>(error, stdout, stderr)\<close> of the callback.\<close>

record callback =
  cb_error :: "exec_error option"
  cb_stdout :: jsstring
  cb_stderr :: jsstring

text \<open>\<open>error?.code\<close>, \<open>error?.killed\<close>\<close>

definition opt_code :: "exec_error option \<Rightarrow> jsval" where
  "opt_code err = (case err of None \<Rightarrow> VUndefined | Some e \<Rightarrow> code e)"

definition opt_killed :: "exec_error option \<Rightarrow> jsval" where
  "opt_killed err = (case err of None \<Rightarrow> VUndefined | Some e \<Rightarrow> killed e)"

text \<open>The objects the stages resolve with and the body of the response share their
  field names: \<open>{error, stdout, stderr, exitCode}\<close> from \<open>compileCode\<close>,
  \<open>{stdout, stderr, exitCode, timedOut}\<close> from \<open>executeCode\<close>,
  \<open>{stdout, stderr, compileError, exitCode, timedOut}\<close> in the response, sent
  with an HTTP status.\<close>

record streams =
  stdout :: jsstring
  stderr :: jsstring
  exitCode :: jsval

record compile_result = streams +
  error :: bool

record outcome = streams +
  timedOut :: jsval

record response = outcome +
  compileError :: jsstring
  status :: nat

text \<open>\<open>req.body\<close>: the fields \<open>code\<close> and \<open>stdin\<close>, \<open>VUndefined\<close> when absent.\<close>

record request =
  req_code :: jsval
  req_stdin :: jsval

text \<open>What a handler does to the outside, in order, and the workspace directories that
  exist. \<open>Uncaught\<close> is an exception that nothing catches: the server process ends.\<close>

datatype event =
    Mkdir jsstring
  | WriteFile jsstring jsval
  | Exec jsstring
  | ExecFile jsstring "jsstring list"
  | ExistsSync jsstring
  | RmSync jsstring
  | Respond nat
  | Uncaught

record world =
  dirs :: "jsstring set"
  trace :: "event list"

definition emit :: "event \<Rightarrow> world \<Rightarrow> world" where
  "emit ev w = w\<lparr>trace := trace w @ [ev]\<rparr>"

text \<open>What the outside answers during one request: \<open>os.tmpdir()\<close>, \<open>uuidv4()\<close>, the
  error message of each file system call that fails, the callbacks of the two docker
  commands, and whether \<open>fs.rmSync\<close> throws.\<close>

record env =
  tmpdir :: jsstring
  runId :: jsstring
  mkdir_error :: "jsstring option"
  main_error :: "jsstring option"
  input_error :: "jsstring option"
  compile_cb :: callback
  run_cb :: callback
  rm_throws :: bool

subsection \<open>Workspace\<close>

text \<open>
  \<open>createWorkspace\<close>: \<open>fs.mkdir\<close> (recursive), then \<open>main.c\<close>, then \<open>input.txt\<close>, each in
  the callback of the one before. A call that fails passes its error to the callback,
  and the promise is rejected with it. \<open>fs.writeFile\<close> takes a string (or a buffer,
  which a JSON body cannot hold) and throws \<open>ERR_INVALID_ARG_TYPE\<close> at once for
  anything else. \<open>code\<close> has passed the validation and is a string; \<open>stdin\<close> is whatever
  the body held, and for a number, a boolean, \<open>null\<close> or an object the third call
  throws inside the callback of the second: outside the promise and outside the
  \<open>try\<close> of the handler, so that nothing catches it.
\<close>

datatype created = Resolved | Rejected jsstring | Thrown

definition createWorkspace ::
  "env \<Rightarrow> jsstring \<Rightarrow> jsval \<Rightarrow> jsval \<Rightarrow> world \<Rightarrow> created \<times> world" where
  "createWorkspace e workspaceDir code' stdin w =
     (let w1 = emit (Mkdir workspaceDir) w in
      case mkdir_error e of
        Some err \<Rightarrow> (Rejected err, w1)
      | None \<Rightarrow>
          (let w2 = w1\<lparr>dirs := insert workspaceDir (dirs w1)\<rparr>;
               mainPath = path_join workspaceDir (lit ''main.c'');
               w3 = emit (WriteFile mainPath code') w2
           in case main_error e of
                Some err \<Rightarrow> (Rejected err, w3)
              | None \<Rightarrow>
                  (let inputPath = path_join workspaceDir (lit ''input.txt'') in
                   if \<not> is_string stdin then (Thrown, emit Uncaught w3)
                   else
                     (let w4 = emit (WriteFile inputPath stdin) w3
                      in (case input_error e of
                            Some err \<Rightarrow> (Rejected err, w4)
                          | None \<Rightarrow> (Resolved, w4))))))"

text \<open>
  \<^verbatim>\<open>
  function cleanupWorkspace(workspaceDir) {
    try {
      if (fs.existsSync(workspaceDir)) {
        fs.rmSync(workspaceDir, { recursive: true, force: true });
      }
    } catch (error) { console.error(...); }
  }
  \<close>
  An exception of \<open>rmSync\<close> is logged and swallowed; the directory is then still there.
\<close>

definition cleanupWorkspace :: "env \<Rightarrow> jsstring \<Rightarrow> world \<Rightarrow> world" where
  "cleanupWorkspace e workspaceDir w =
     (let w1 = emit (ExistsSync workspaceDir) w in
      if workspaceDir \<in> dirs w1 then
        (let w2 = emit (RmSync workspaceDir) w1 in
         if rm_throws e then w2
         else w2\<lparr>dirs := dirs w2 - {workspaceDir}\<rparr>)
      else w1)"

subsection \<open>The docker commands\<close>

text \<open>The command lines of \<open>index.js\<close>, concatenated as in the source; code unit 34 is
  the double quote and 39 the single quote.\<close>

definition compileCmd :: "jsstring \<Rightarrow> jsstring" where
  "compileCmd workspaceDir =
     lit ''docker run --rm '' @
     lit ''-v '' @ [34] @ workspaceDir @ lit '':/workspace'' @ [34] @ lit '' '' @
     lit ''--workdir /workspace '' @
     lit ''--memory=256m '' @
     lit ''--cpus=0.5 '' @
     lit ''--network=none '' @
     lit ''--user=1000:1000 '' @
     lit ''c-runner:latest '' @
     lit ''gcc -std=c11 -Wall -Wextra -O2 main.c -o main''"

definition executeCmd :: "jsstring \<Rightarrow> jsstring" where
  "executeCmd workspaceDir =
     lit ''docker run --rm '' @
     lit ''-v '' @ [34] @ workspaceDir @ lit '':/workspace'' @ [34] @ lit '' '' @
     lit ''--workdir /workspace '' @
     lit ''--memory=256m '' @
     lit ''--cpus=0.5 '' @
     lit ''--pids-limit=64 '' @
     lit ''--network=none '' @
     lit ''--user=1000:1000 '' @
     lit ''c-runner:latest '' @
     lit ''sh -c '' @ [39] @ lit ''timeout 3s ./main < input.txt > program.out 2> program.err; '' @
     lit ''TIMEOUT_EXIT=$?; '' @
     lit ''echo '' @ [34] @ lit ''EXIT_CODE:$TIMEOUT_EXIT'' @ [34] @ lit ''; '' @
     lit ''echo '' @ [34] @ lit ''---STDOUT---'' @ [34] @ lit ''; '' @
     lit ''cat program.out 2>/dev/null || echo '' @ [34, 34] @ lit ''; '' @
     lit ''echo '' @ [34] @ lit ''---STDERR---'' @ [34] @ lit ''; '' @
     lit ''cat program.err 2>/dev/null || echo '' @ [34, 34] @ [39]"

text \<open>The argument arrays of the \<open>execFile\<close> snapshot (\<open>cmd.slice(1)\<close>; \<open>cmd[0]\<close> is
  \<open>docker\<close>).\<close>

definition compile_args :: "jsstring \<Rightarrow> jsstring list" where
  "compile_args workspaceDir =
     [lit ''run'', lit ''--rm'',
      lit ''-v'', workspaceDir @ lit '':/workspace'',
      lit ''--workdir'', lit ''/workspace'',
      lit ''--memory=256m'',
      lit ''--cpus=0.5'',
      lit ''--network=none'',
      lit ''--user=1000:1000'',
      lit ''c-runner:latest'',
      lit ''gcc'', lit ''-std=c11'', lit ''-Wall'', lit ''-Wextra'', lit ''-O2'', lit ''main.c'',
      lit ''-o'', lit ''main'']"

definition execute_args :: "jsstring \<Rightarrow> jsstring list" where
  "execute_args workspaceDir =
     [lit ''run'', lit ''--rm'',
      lit ''-v'', workspaceDir @ lit '':/workspace'',
      lit ''--workdir'', lit ''/workspace'',
      lit ''--memory=256m'',
      lit ''--cpus=0.5'',
      lit ''--pids-limit=64'',
      lit ''--network=none'',
      lit ''--user=1000:1000'',
      lit ''c-runner:latest'',
      lit ''./main'']"

subsection \<open>Build stage\<close>

text \<open>
  \<open>index.js\<close>:
  \<^verbatim>\<open>
  exec(compileCmd, { timeout: 10000 }, (error, stdout, stderr) => {
    if (error) resolve({ error: true, stdout, stderr, exitCode: error.code || 1 });
    else resolve({ error: false, stdout, stderr, exitCode: 0 });
  });
  \<close>
\<close>

definition compile_callback_exec :: "callback \<Rightarrow> compile_result" where
  "compile_callback_exec cb =
     (case cb_error cb of
        Some err \<Rightarrow>
          \<lparr>stdout = cb_stdout cb, stderr = cb_stderr cb,
           exitCode = js_or (code err) (VNum 1), error = True\<rparr>
      | None \<Rightarrow>
          \<lparr>stdout = cb_stdout cb, stderr = cb_stderr cb,
           exitCode = VNum 0, error = False\<rparr>)"

definition compileCode_exec :: "jsstring \<Rightarrow> env \<Rightarrow> world \<Rightarrow> compile_result \<times> world" where
  "compileCode_exec workspaceDir e w =
     (compile_callback_exec (compile_cb e), emit (Exec (compileCmd workspaceDir)) w)"

text \<open>
  The \<open>execFile\<close> snapshot:
  \<^verbatim>\<open>
  execFile(cmd[0], cmd.slice(1), { timeout: 10000 }, (error, stdout, stderr) => {
    resolve({ error: !!error, stdout: stdout.trim(), stderr: stderr.trim(),
              exitCode: error?.code || 0 });
  });
  \<close>
\<close>

definition compile_callback_execFile :: "callback \<Rightarrow> compile_result" where
  "compile_callback_execFile cb =
     \<lparr>stdout = trim (cb_stdout cb), stderr = trim (cb_stderr cb),
      exitCode = js_or (opt_code (cb_error cb)) (VNum 0),
      error = (cb_error cb \<noteq> None)\<rparr>"

definition compileCode_execFile :: "jsstring \<Rightarrow> env \<Rightarrow> world \<Rightarrow> compile_result \<times> world" where
  "compileCode_execFile workspaceDir e w =
     (compile_callback_execFile (compile_cb e),
      emit (ExecFile (lit ''docker'') (compile_args workspaceDir)) w)"

subsection \<open>Execution stage\<close>

text \<open>
  \<open>index.js\<close>. The program runs under \<open>timeout 3s\<close> inside the container, with its
  output redirected to files; the script then prints the exit status and both files
  between marker lines, and the callback reads all three back from the one stdout of
  the docker command. The source splits and joins on \<open>'\\n'\<close>, which is the two code
  units backslash (92) and \<open>n\<close> (110), not the line feed.
\<close>

record markers =
  exitCodeLine :: jsstring
  stdoutStartIndex :: int
  stderrStartIndex :: int

text \<open>
  \<^verbatim>\<open>
  for (let i = 0; i < lines.length; i++) {
    if (lines[i].startsWith('EXIT_CODE:')) exitCodeLine = lines[i];
    else if (lines[i] === '---STDOUT---') stdoutStartIndex = i + 1;
    else if (lines[i] === '---STDERR---') stderrStartIndex = i + 1;
  }
  \<close>
\<close>

fun find_markers :: "jsstring list \<Rightarrow> int \<Rightarrow> markers \<Rightarrow> markers" where
  "find_markers [] i m = m"
| "find_markers (l # ls) i m =
     find_markers ls (i + 1)
       (if startsWith l (lit ''EXIT_CODE:'') then m\<lparr>exitCodeLine := l\<rparr>
        else if l = lit ''---STDOUT---'' then m\<lparr>stdoutStartIndex := i + 1\<rparr>
        else if l = lit ''---STDERR---'' then m\<lparr>stderrStartIndex := i + 1\<rparr>
        else m)"

text \<open>\<open>parseInt(xs[i])\<close>; a missing element is \<open>undefined\<close>, which parses to \<open>NaN\<close>.\<close>

definition parseInt_at :: "jsstring list \<Rightarrow> nat \<Rightarrow> jsval" where
  "parseInt_at xs i = (if i < length xs then parseInt (xs ! i) else VNaN)"

text \<open>The callback of \<open>exec(executeCmd, { timeout: 15000 }, ...)\<close>. Nothing in its
  \<open>try\<close> block throws, so its \<open>catch\<close> branch is never taken.\<close>

definition execute_callback_exec :: "callback \<Rightarrow> outcome" where
  "execute_callback_exec cb =
     (let lines = split (cb_stdout cb) [92, 110];
          m = find_markers lines 0
                \<lparr>exitCodeLine = [], stdoutStartIndex = - 1, stderrStartIndex = - 1\<rparr>;
          exitCode' =
            (if exitCodeLine m \<noteq> [] then parseInt_at (split (exitCodeLine m) (lit '':'')) 1
             else (case cb_error cb of
                     Some err \<Rightarrow> js_or (code err) (VNum 1)
                   | None \<Rightarrow> VNum 0));
          programStdout =
            (if stdoutStartIndex m \<noteq> - 1 \<and> stderrStartIndex m \<noteq> - 1
             then join (slice lines (stdoutStartIndex m) (stderrStartIndex m - 1)) [92, 110]
             else []);
          programStderr =
            (if stderrStartIndex m \<noteq> - 1
             then join (slice_from lines (stderrStartIndex m)) [92, 110]
             else []);
          timedOut' = (exitCode' = VNum 124)
      in \<lparr>stdout = programStdout, stderr = programStderr,
          exitCode = (if timedOut' then VNum 124 else exitCode'),
          timedOut = VBool timedOut'\<rparr>)"

definition executeCode_exec :: "jsstring \<Rightarrow> env \<Rightarrow> world \<Rightarrow> outcome \<times> world" where
  "executeCode_exec workspaceDir e w =
     (execute_callback_exec (run_cb e), emit (Exec (executeCmd workspaceDir)) w)"

text \<open>
  The \<open>execFile\<close> snapshot runs \<open>./main\<close> directly, under the \<open>timeout: 3000\<close> of node:
  \<^verbatim>\<open>
  execFile(cmd[0], cmd.slice(1), { timeout: 3000 }, (error, stdout, stderr) => {
    const timedOut = error?.killed || false;
    const exitCode = error?.code || 0;
    resolve({ stdout: stdout.trim(), stderr: stderr.trim(), exitCode, timedOut });
  });
  \<close>
\<close>

definition execute_callback_execFile :: "callback \<Rightarrow> outcome" where
  "execute_callback_execFile cb =
     (let timedOut' = js_or (opt_killed (cb_error cb)) (VBool False);
          exitCode' = js_or (opt_code (cb_error cb)) (VNum 0)
      in \<lparr>stdout = trim (cb_stdout cb), stderr = trim (cb_stderr cb),
          exitCode = exitCode', timedOut = timedOut'\<rparr>)"

definition executeCode_execFile :: "jsstring \<Rightarrow> env \<Rightarrow> world \<Rightarrow> outcome \<times> world" where
  "executeCode_execFile workspaceDir e w =
     (execute_callback_execFile (run_cb e),
      emit (ExecFile (lit ''docker'') (execute_args workspaceDir)) w)"

subsection \<open>The handler of \<open>POST /api/run\<close>\<close>

text \<open>\<open>path.join(os.tmpdir(), `c-runner-${runId}`)\<close>\<close>

definition workspaceDir_of :: "env \<Rightarrow> jsstring" where
  "workspaceDir_of e = path_join (tmpdir e) (lit ''c-runner-'' @ runId e)"

definition respond :: "response \<Rightarrow> world \<Rightarrow> response \<times> world" where
  "respond r w = (r, emit (Respond (status r)) w)"

text \<open>\<open>code.length\<close> of a value that has passed \<open>typeof code === 'string'\<close>.\<close>

fun str_of :: "jsval \<Rightarrow> jsstring" where
  "str_of (VStr s) = s"
| "str_of v = []"

text \<open>\<open>const { code, stdin = '' } = req.body\<close>: the default is taken for \<open>undefined\<close>
  only.\<close>

definition stdin_of :: "request \<Rightarrow> jsval" where
  "stdin_of req = (if req_stdin req = VUndefined then VStr [] else req_stdin req)"

text \<open>\<open>finally { cleanupWorkspace(workspaceDir) }\<close> behind a response.\<close>

definition then_cleanup ::
  "env \<Rightarrow> jsstring \<Rightarrow> response \<times> world \<Rightarrow> response option \<times> world" where
  "then_cleanup e workspaceDir rw = (Some (fst rw), cleanupWorkspace e workspaceDir (snd rw))"

text \<open>
  The handler, with the two stages as parameters. Its result is the response, or
  \<open>None\<close> where the server process has ended before one was sent. The validation
  branches return before a workspace name is even chosen; behind them everything runs
  inside \<open>try { ... } catch { ... } finally { cleanupWorkspace(workspaceDir) }\<close>. Only
  \<open>createWorkspace\<close> can reject; the stages always resolve. Where \<open>createWorkspace\<close>
  throws in its callback, neither \<open>catch\<close> nor \<open>finally\<close> runs.
\<close>

definition api_run ::
  "(jsstring \<Rightarrow> env \<Rightarrow> world \<Rightarrow> compile_result \<times> world) \<Rightarrow>
   (jsstring \<Rightarrow> env \<Rightarrow> world \<Rightarrow> outcome \<times> world) \<Rightarrow>
   env \<Rightarrow> request \<Rightarrow> world \<Rightarrow> response option \<times> world" where
  "api_run compileCode executeCode e req w =
     (let code' = req_code req;
          stdin = stdin_of req
      in
      if \<not> truthy code' \<or> \<not> is_string code' then
        map_prod Some id
          (respond \<lparr>stdout = [], stderr = lit ''Invalid code provided'', exitCode = VNum (- 1),
                    timedOut = VBool False, compileError = [], status = 400\<rparr> w)
      else if length (str_of code') > 1024 * 1024 then
        map_prod Some id
          (respond \<lparr>stdout = [], stderr = lit ''Code too large (max 1MB)'',
                    exitCode = VNum (- 1), timedOut = VBool False, compileError = [],
                    status = 400\<rparr> w)
      else
        (let workspaceDir = workspaceDir_of e in
         case createWorkspace e workspaceDir code' stdin w of
           (Thrown, w1) \<Rightarrow> (None, w1)
         | (Rejected message, w1) \<Rightarrow>
             then_cleanup e workspaceDir
               (respond \<lparr>stdout = [],
                         stderr = lit ''Internal server error: '' @ message,
                         exitCode = VNum (- 1), timedOut = VBool False,
                         compileError = [], status = 500\<rparr> w1)
         | (Resolved, w1) \<Rightarrow>
             then_cleanup e workspaceDir
               (case compileCode workspaceDir e w1 of
                  (compileResult, w2) \<Rightarrow>
                    if error compileResult then
                      respond \<lparr>stdout = [], stderr = [],
                               exitCode = exitCode compileResult,
                               timedOut = VBool False,
                               compileError = stderr compileResult, status = 200\<rparr> w2
                    else
                      (case executeCode workspaceDir e w2 of
                         (executeResult, w3) \<Rightarrow>
                           respond \<lparr>stdout = stdout executeResult,
                                    stderr = stderr executeResult,
                                    exitCode = exitCode executeResult,
                                    timedOut = timedOut executeResult,
                                    compileError = [], status = 200\<rparr> w3))))"

definition api_run_exec :: "env \<Rightarrow> request \<Rightarrow> world \<Rightarrow> response option \<times> world" where
  "api_run_exec = api_run compileCode_exec executeCode_exec"

definition api_run_execFile :: "env \<Rightarrow> request \<Rightarrow> world \<Rightarrow> response option \<times> world" where
  "api_run_execFile = api_run compileCode_execFile executeCode_execFile"

text \<open>
  What the script of \<open>executeCmd\<close> writes to its stdout when the program has ended with
  the status \<open>st\<close> and left \<open>out\<close> in \<open>program.out\<close> and \<open>err\<close> in \<open>program.err\<close>:
  the three \<open>echo\<close> lines, each ended by a line feed (10), and the two files as
  \<open>cat\<close> copies them.
\<close>

fun dec :: "nat \<Rightarrow> jsstring" where
  "dec n = (if n < 10 then [48 + n] else dec (n div 10) @ [48 + n mod 10])"

declare dec.simps [simp del]

definition script_output :: "nat \<Rightarrow> jsstring \<Rightarrow> jsstring \<Rightarrow> jsstring" where
  "script_output st out err =
     lit ''EXIT_CODE:'' @ dec st @ [10] @
     lit ''---STDOUT---'' @ [10] @ out @
     lit ''---STDERR---'' @ [10] @ err"

text \<open>A request that passes both validation branches of the handler.\<close>

definition accepted :: "request \<Rightarrow> bool" where
  "accepted req =
     (truthy (req_code req) \<and> is_string (req_code req) \<and>
      length (str_of (req_code req)) \<le> 1024 * 1024)"

text \<open>The two shapes of a response body: a compile failure report, and an execution
  report, whose \<open>exitCode\<close> and \<open>timedOut\<close> carry a value (\<open>JSON.stringify\<close> drops a
  field that is \<open>undefined\<close>; \<open>stdout\<close> and \<open>stderr\<close> are strings by their type).\<close>

definition compile_failure_report :: "response \<Rightarrow> bool" where
  "compile_failure_report r = (compileError r \<noteq> [] \<and> stdout r = [] \<and> stderr r = [])"

definition execution_report :: "response \<Rightarrow> bool" where
  "execution_report r =
     (compileError r = [] \<and> exitCode r \<noteq> VUndefined \<and> timedOut r \<noteq> VUndefined)"

subsection \<open>Resource caps of a docker command\<close>

text \<open>The options of \<open>docker run\<close> that cap the container: memory, CPU share, number
  of processes, network, user.\<close>

definition resource_cap :: "jsstring \<Rightarrow> bool" where
  "resource_cap a =
     (startsWith a (lit ''--memory='') \<or> startsWith a (lit ''--cpus='') \<or>
      startsWith a (lit ''--pids-limit='') \<or> startsWith a (lit ''--network='') \<or>
      startsWith a (lit ''--user=''))"

definition caps :: "jsstring list \<Rightarrow> jsstring list" where
  "caps args = filter resource_cap args"

text \<open>The words of a command line given to \<open>exec\<close>, for a line without quoted blanks.\<close>

definition words :: "jsstring \<Rightarrow> jsstring list" where
  "words cmd = split cmd (lit '' '')"

section \<open>The interactive server\<close>

text \<open>
  \<open>interactiveServer.js\<close> with \<open>stripAnsiSequences\<close>: one workspace per connection,
  made when the client connects; a \<open>code\<close> message compiles, and the callback of the
  compilation spawns the program on a pseudo terminal and stores the handle in
  \<open>ws.term\<close>; \<open>stdin\<close> messages are written to it; closing the connection removes the
  workspace.
\<close>

text \<open>\<open>compileCmd\<close> (joined with blanks for \<open>exec\<close>) and the arguments of
  \<open>pty.spawn('docker', ...)\<close>.\<close>

definition interactive_compileCmd :: "jsstring \<Rightarrow> jsstring list" where
  "interactive_compileCmd workspaceDir =
     [lit ''docker'', lit ''run'', lit ''--rm'',
      lit ''-v'', workspaceDir @ lit '':/workspace'',
      lit ''--workdir'', lit ''/workspace'',
      lit ''c-runner:latest'',
      lit ''gcc'', lit ''main.c'', lit ''-o'', lit ''main'']"

definition interactive_spawn_args :: "jsstring \<Rightarrow> jsstring list" where
  "interactive_spawn_args workspaceDir =
     [lit ''run'', lit ''--rm'', lit ''-i'', lit ''-t'',
      lit ''-v'', workspaceDir @ lit '':/workspace'',
      lit ''--workdir'', lit ''/workspace'',
      lit ''c-runner:latest'',
      lit ''./main'']"

text \<open>The messages sent to the client: \<open>{type: 'compileError', data}\<close>,
  \<open>{type: 'stdout', data}\<close>, \<open>{type: 'exit'}\<close>.\<close>

datatype server_message = CompileError jsstring | Stdout jsval | Exit

text \<open>A parsed client message: its \<open>type\<close>, \<open>code\<close> and \<open>data\<close> fields.\<close>

record client_message =
  m_type :: jsval
  m_code :: jsval
  m_data :: jsval

text \<open>
  The connection and what belongs to it. Spawned processes are numbered in the order
  of their creation; \<open>live\<close> holds those that have not exited, \<open>ws_term\<close> is \<open>ws.term\<close>,
  \<open>compiling\<close> counts the compilations whose callback is still to come.
\<close>

record session =
  workspace :: jsstring
  workspaces :: "jsstring set"
  ws_term :: "nat option"
  live :: "nat set"
  spawned :: nat
  compiling :: nat
  sent :: "server_message list"
  written :: "(nat \<times> jsval) list"

text \<open>What node delivers to the handlers of one connection: a message of the client,
  the callback of a compilation, data or the exit of a spawned process, and the close
  of the connection (with whether \<open>fs.rmSync\<close> throws).\<close>

datatype delivery =
    Message client_message
  | Compiled callback
  | TermData nat jsval
  | TermExit nat
  | Close bool


text \<open>
  The handlers. The \<open>message\<close> handler starts a compilation for \<open>code\<close> and forwards
  \<open>stdin\<close> to \<open>ws.term\<close> when there is one. The callback of the compilation sends the
  diagnostics on an error, and otherwise spawns the program and overwrites \<open>ws.term\<close>.
  Data of a process is filtered and sent; at its exit \<open>exit\<close> is sent and the process is
  gone. The \<open>close\<close> handler is the text of \<open>cleanupWorkspace\<close>, and nothing else.
\<close>

fun handle :: "delivery \<Rightarrow> session \<Rightarrow> session" where
  "handle (Message m) s =
     (let s1 = (if m_type m = VStr (lit ''code'') then s\<lparr>compiling := compiling s + 1\<rparr> else s)
      in if m_type m = VStr (lit ''stdin'') then
           (case ws_term s1 of
              Some t \<Rightarrow> s1\<lparr>written := written s1 @ [(t, m_data m)]\<rparr>
            | None \<Rightarrow> s1)
         else s1)"
| "handle (Compiled cb) s =
     (if compiling s = 0 then s
      else
        (let s1 = s\<lparr>compiling := compiling s - 1\<rparr> in
         case cb_error cb of
           Some err \<Rightarrow> s1\<lparr>sent := sent s1 @ [CompileError (cb_stderr cb)]\<rparr>
         | None \<Rightarrow>
             s1\<lparr>ws_term := Some (spawned s1), live := insert (spawned s1) (live s1),
                spawned := spawned s1 + 1\<rparr>))"
| "handle (TermData t d) s =
     (if t \<in> live s then s\<lparr>sent := sent s @ [Stdout (stripAnsiSequences d)]\<rparr> else s)"
| "handle (TermExit t) s =
     (if t \<in> live s then s\<lparr>live := live s - {t}, sent := sent s @ [Exit]\<rparr> else s)"
| "handle (Close rm_fails) s =
     (if workspace s \<in> workspaces s \<and> \<not> rm_fails
      then s\<lparr>workspaces := workspaces s - {workspace s}\<rparr>
      else s)"

text \<open>A run of the connection.\<close>

definition run :: "delivery list \<Rightarrow> session \<Rightarrow> session" where
  "run ds s = foldl (\<lambda>s d. handle d s) s ds"

section \<open>Sample inputs\<close>

text \<open>A callback without error and output, an environment in which every call
  succeeds, a small request, and a world without workspaces.\<close>

definition quiet :: callback where
  "quiet = \<lparr>cb_error = None, cb_stdout = [], cb_stderr = []\<rparr>"

definition sample_env :: env where
  "sample_env =
     \<lparr>tmpdir = lit ''/tmp'', runId = lit ''r1'', mkdir_error = None, main_error = None,
      input_error = None, compile_cb = quiet, run_cb = quiet, rm_throws = False\<rparr>"

definition sample_request :: request where
  "sample_request = \<lparr>req_code = VStr (lit ''int main;''), req_stdin = VUndefined\<rparr>"

definition fresh :: world where
  "fresh = \<lparr>dirs = {}, trace = []\<rparr>"

text \<open>The error of a child that ended with status \<open>n\<close>, and of one that node killed at
  its timeout (\<open>code\<close> is \<open>null\<close> then).\<close>

definition exited :: "int \<Rightarrow> exec_error" where
  "exited n = \<lparr>code = VNum n, killed = VBool False\<rparr>"

definition killed_by_node :: exec_error where
  "killed_by_node = \<lparr>code = VNull, killed = VBool True\<rparr>"

section \<open>Properties of the control-sequence filter\<close>

lemma replace_all_bel: "replace_all bel s = filter (\<lambda>c. c \<noteq> 7) s"
  by (induction s) auto

text \<open>
  C10. For every string input the output of \<open>stripAnsiSequences\<close> is a string
  without the BEL code unit (7), and an input that is not a string is returned
  unchanged.
\<close>

theorem stripAnsiSequences_no_bel:
  "(\<exists>t. stripAnsiSequences (VStr s) = VStr t \<and> 7 \<notin> set t)
   \<and> (\<not> is_string v \<longrightarrow> stripAnsiSequences v = v)"
proof
  show "\<exists>t. stripAnsiSequences (VStr s) = VStr t \<and> 7 \<notin> set t"
    by (simp add: replace_all_bel)
  show "\<not> is_string v \<longrightarrow> stripAnsiSequences v = v"
    by (cases v) simp_all
qed

theorem stripAnsiSequences_no_bel_witness:
  "(\<exists>t. stripAnsiSequences (VStr [27, 91, 51, 49, 109, 104, 105, 7]) = VStr t \<and> 7 \<notin> set t)
   \<and> \<not> is_string (VNum 5) \<and> stripAnsiSequences (VNum 5) = VNum 5"
  using stripAnsiSequences_no_bel [of "[27, 91, 51, 49, 109, 104, 105, 7]" "VNum 5"]
  by simp

section \<open>Properties of the batch handler\<close>

lemma emit_simps [simp]:
  "dirs (emit ev w) = dirs w"
  "trace (emit ev w) = trace w @ [ev]"
  by (simp_all add: emit_def)

lemma js_or_defined: "b \<noteq> VUndefined \<Longrightarrow> js_or a b \<noteq> VUndefined"
  by (cases a) (auto simp: js_or_def)

lemma parseInt_defined: "parseInt s \<noteq> VUndefined"
  by (simp add: parseInt_def Let_def split: prod.splits option.splits)

lemma parseInt_at_defined: "parseInt_at xs i \<noteq> VUndefined"
  by (simp add: parseInt_at_def parseInt_defined)

lemma compile_exec_defined: "exitCode (compile_callback_exec cb) \<noteq> VUndefined"
  by (simp add: compile_callback_exec_def js_or_defined split: option.splits)

lemma compile_execFile_defined: "exitCode (compile_callback_execFile cb) \<noteq> VUndefined"
  by (simp add: compile_callback_execFile_def js_or_defined)

lemma execute_exec_defined:
  "exitCode (execute_callback_exec cb) \<noteq> VUndefined \<and>
   timedOut (execute_callback_exec cb) \<noteq> VUndefined"
  by (simp add: execute_callback_exec_def Let_def parseInt_at_defined js_or_defined
      split: option.splits)

lemma execute_execFile_defined:
  "exitCode (execute_callback_execFile cb) \<noteq> VUndefined \<and>
   timedOut (execute_callback_execFile cb) \<noteq> VUndefined"
  by (simp add: execute_callback_execFile_def Let_def js_or_defined)

lemma sample_workspace: "workspaceDir_of sample_env = lit ''/tmp/c-runner-r1''"
  by (simp add: workspaceDir_of_def sample_env_def path_join_def normalize_def split_def
      startsWith_def lit_def)

lemma sample_accepted: "accepted sample_request \<and> is_string (stdin_of sample_request)"
  by (simp add: accepted_def stdin_of_def sample_request_def lit_def)

lemma createWorkspace_ok:
  "mkdir_error e = None \<Longrightarrow> main_error e = None \<Longrightarrow> input_error e = None \<Longrightarrow>
   is_string i \<Longrightarrow>
   createWorkspace e d c i w =
     (Resolved, \<lparr>dirs = insert d (dirs w),
                 trace = trace w @ [Mkdir d, WriteFile (path_join d (lit ''main.c'')) c,
                                    WriteFile (path_join d (lit ''input.txt'')) i]\<rparr>)"
  by (simp add: createWorkspace_def Let_def emit_def)

lemma api_run_exec_executed:
  assumes "accepted req" and "is_string (stdin_of req)"
    and "mkdir_error e = None" and "main_error e = None" and "input_error e = None"
    and "cb_error (compile_cb e) = None"
  shows "fst (api_run_exec e req w) =
     Some \<lparr>stdout = stdout (execute_callback_exec (run_cb e)),
           stderr = stderr (execute_callback_exec (run_cb e)),
           exitCode = exitCode (execute_callback_exec (run_cb e)),
           timedOut = timedOut (execute_callback_exec (run_cb e)),
           compileError = [], status = 200\<rparr>"
  using assms
  by (simp add: accepted_def api_run_exec_def api_run_def Let_def createWorkspace_ok
      respond_def then_cleanup_def compileCode_exec_def executeCode_exec_def
      compile_callback_exec_def)

lemma api_run_execFile_executed:
  assumes "accepted req" and "is_string (stdin_of req)"
    and "mkdir_error e = None" and "main_error e = None" and "input_error e = None"
    and "cb_error (compile_cb e) = None"
  shows "fst (api_run_execFile e req w) =
     Some \<lparr>stdout = stdout (execute_callback_execFile (run_cb e)),
           stderr = stderr (execute_callback_execFile (run_cb e)),
           exitCode = exitCode (execute_callback_execFile (run_cb e)),
           timedOut = timedOut (execute_callback_execFile (run_cb e)),
           compileError = [], status = 200\<rparr>"
  using assms
  by (simp add: accepted_def api_run_execFile_def api_run_def Let_def createWorkspace_ok
      respond_def then_cleanup_def compileCode_execFile_def executeCode_execFile_def
      compile_callback_execFile_def)

text \<open>
  C1. Every response of the batch handler, in both backends and on every path that
  produces one (rejected input, workspace failure, compile failure, execution), has
  exactly one of the two shapes: either \<open>compileError\<close> is non-empty and \<open>stdout\<close> and
  \<open>stderr\<close> are both empty, or \<open>compileError\<close> is empty and \<open>stdout\<close>, \<open>stderr\<close>,
  \<open>exitCode\<close> and \<open>timedOut\<close> all carry a value.
\<close>

theorem response_exactly_one:
  "(fst (api_run_exec e req w) = Some r \<longrightarrow>
      compile_failure_report r \<noteq> execution_report r)
   \<and> (fst (api_run_execFile e req w) = Some r' \<longrightarrow>
      compile_failure_report r' \<noteq> execution_report r')"
proof -
  have shape: "compile_failure_report a \<noteq> execution_report a"
    if c: "\<And>d w. exitCode (fst (c d e w)) \<noteq> VUndefined"
      and x: "\<And>d w. exitCode (fst (x d e w)) \<noteq> VUndefined
                     \<and> timedOut (fst (x d e w)) \<noteq> VUndefined"
      and a: "fst (api_run c x e req w) = Some a" for c x a
  proof (cases "\<not> truthy (req_code req) \<or> \<not> is_string (req_code req)
      \<or> length (str_of (req_code req)) > 1024 * 1024")
    case True
    with a show ?thesis
      by (auto simp: api_run_def Let_def respond_def compile_failure_report_def
          execution_report_def split: if_splits)
  next
    case False
    obtain k w1 where cw: "createWorkspace e (workspaceDir_of e) (req_code req)
        (stdin_of req) w = (k, w1)"
      by (cases "createWorkspace e (workspaceDir_of e) (req_code req) (stdin_of req) w") auto
    show ?thesis
    proof (cases k)
      case Resolved
      with False cw a c [of "workspaceDir_of e" w1]
        x [of "workspaceDir_of e" "snd (c (workspaceDir_of e) e w1)"]
      show ?thesis
        by (auto simp: api_run_def Let_def respond_def then_cleanup_def split_beta
            compile_failure_report_def execution_report_def split: if_splits)
    next
      case (Rejected message)
      with False cw a show ?thesis
        by (auto simp: api_run_def Let_def respond_def then_cleanup_def
            compile_failure_report_def execution_report_def)
    next
      case Thrown
      with False cw a show ?thesis
        by (simp add: api_run_def Let_def)
    qed
  qed
  show ?thesis
    unfolding api_run_exec_def api_run_execFile_def
    by (intro conjI impI; rule shape)
      (simp_all add: compileCode_exec_def compileCode_execFile_def executeCode_exec_def
        executeCode_execFile_def compile_exec_defined compile_execFile_defined
        execute_exec_defined execute_execFile_defined)
qed

theorem response_exactly_one_witness:
  "fst (api_run_exec sample_env sample_request fresh) =
     Some \<lparr>stdout = [], stderr = [], exitCode = VNum 0, timedOut = VBool False,
           compileError = [], status = 200\<rparr>
   \<and> compile_failure_report
        \<lparr>stdout = [], stderr = [], exitCode = VNum 0, timedOut = VBool False,
         compileError = [], status = 200\<rparr>
     \<noteq> execution_report
        \<lparr>stdout = [], stderr = [], exitCode = VNum 0, timedOut = VBool False,
         compileError = [], status = 200\<rparr>
   \<and> fst (api_run_execFile sample_env sample_request fresh) =
     Some \<lparr>stdout = [], stderr = [], exitCode = VNum 0, timedOut = VBool False,
           compileError = [], status = 200\<rparr>"
proof -
  have 1: "fst (api_run_exec sample_env sample_request fresh) =
     Some \<lparr>stdout = [], stderr = [], exitCode = VNum 0, timedOut = VBool False,
           compileError = [], status = 200\<rparr>"
    using sample_accepted
    by (subst api_run_exec_executed)
      (simp_all add: sample_env_def quiet_def execute_callback_exec_def split_def
        startsWith_def lit_def)
  have 2: "fst (api_run_execFile sample_env sample_request fresh) =
     Some \<lparr>stdout = [], stderr = [], exitCode = VNum 0, timedOut = VBool False,
           compileError = [], status = 200\<rparr>"
    using sample_accepted
    by (subst api_run_execFile_executed)
      (simp_all add: sample_env_def quiet_def execute_callback_execFile_def trim_def
        opt_code_def opt_killed_def js_or_def)
  show ?thesis
    using response_exactly_one [of sample_env sample_request fresh
        "\<lparr>stdout = [], stderr = [], exitCode = VNum 0, timedOut = VBool False,
          compileError = [], status = 200\<rparr>"
        "\<lparr>stdout = [], stderr = [], exitCode = VNum 0, timedOut = VBool False,
          compileError = [], status = 200\<rparr>"] 1 2
    by simp
qed

text \<open>
  C2. A request whose source code is longer than \<open>1024 * 1024\<close> code units is
  rejected before a workspace is allocated: the response is the error 400
  \<open>Code too large (max 1MB)\<close>, the set of workspace directories is unchanged, and the
  only thing the handler does is to respond; no directory is made. (The JSON body
  parser in front of the handler, itself limited to \<open>1mb\<close>, is not part of the model;
  a body it refuses never reaches the handler.)
\<close>

theorem oversized_rejected:
  assumes "req_code req = VStr s" and "length s > 1024 * 1024"
  shows "fst (api_run_exec e req w) =
           Some \<lparr>stdout = [], stderr = lit ''Code too large (max 1MB)'',
                 exitCode = VNum (- 1), timedOut = VBool False, compileError = [],
                 status = 400\<rparr>
       \<and> dirs (snd (api_run_exec e req w)) = dirs w
       \<and> trace (snd (api_run_exec e req w)) = trace w @ [Respond 400]
       \<and> fst (api_run_execFile e req w) =
           Some \<lparr>stdout = [], stderr = lit ''Code too large (max 1MB)'',
                 exitCode = VNum (- 1), timedOut = VBool False, compileError = [],
                 status = 400\<rparr>
       \<and> dirs (snd (api_run_execFile e req w)) = dirs w
       \<and> trace (snd (api_run_execFile e req w)) = trace w @ [Respond 400]"
proof -
  from assms have "s \<noteq> []" by auto
  with assms show ?thesis
    by (simp add: api_run_exec_def api_run_execFile_def api_run_def Let_def respond_def)
qed

theorem oversized_rejected_witness:
  "length (replicate 1048577 (97::nat)) > 1024 * 1024
   \<and> map_option status (fst (api_run_exec sample_env
        \<lparr>req_code = VStr (replicate 1048577 97), req_stdin = VUndefined\<rparr> fresh)) = Some 400
   \<and> dirs (snd (api_run_exec sample_env
        \<lparr>req_code = VStr (replicate 1048577 97), req_stdin = VUndefined\<rparr> fresh)) = {}
   \<and> trace (snd (api_run_exec sample_env
        \<lparr>req_code = VStr (replicate 1048577 97), req_stdin = VUndefined\<rparr> fresh))
      = [Respond 400]"
  using oversized_rejected
    [of "\<lparr>req_code = VStr (replicate 1048577 97), req_stdin = VUndefined\<rparr>"
      "replicate 1048577 97" sample_env fresh]
  by (simp add: fresh_def)

lemma executeCmd_not_compileCmd: "executeCmd d \<noteq> compileCmd d"
  by (simp add: compileCmd_def executeCmd_def lit_def)

lemma execute_args_not_compile_args: "execute_args d \<noteq> compile_args d"
  by (simp add: compile_args_def execute_args_def lit_def)

text \<open>
  C3. When the compiler exits with a status \<open>n\<close> other than 0 (the request was accepted
  and its workspace made, so its \<open>stdin\<close> was a string), the build stage reports failure
  with the diagnostics it captured, the response carries them as \<open>compileError\<close>
  together with the status, and the run command is not among the commands the handler
  issues: the execution stage is not invoked. Behind the three file system calls of
  \<open>createWorkspace\<close> the handler of \<open>index.js\<close> compiles, responds and cleans up, and
  nothing else. The first backend passes the compiler's stderr on verbatim, the second
  trimmed.
\<close>

theorem compile_failure_short_circuits:
  assumes "accepted req" and "is_string (stdin_of req)"
    and "mkdir_error e = None" and "main_error e = None" and "input_error e = None"
    and "cb_error (compile_cb e) = Some err" and "code err = VNum n" and "n \<noteq> 0"
  shows "error (compile_callback_exec (compile_cb e))
       \<and> stderr (compile_callback_exec (compile_cb e)) = cb_stderr (compile_cb e)
       \<and> map_option compileError (fst (api_run_exec e req w)) = Some (cb_stderr (compile_cb e))
       \<and> map_option exitCode (fst (api_run_exec e req w)) = Some (VNum n)
       \<and> Exec (executeCmd (workspaceDir_of e))
            \<notin> set (drop (length (trace w)) (trace (snd (api_run_exec e req w))))
       \<and> drop 3 (drop (length (trace w)) (trace (snd (api_run_exec e req w)))) =
            [Exec (compileCmd (workspaceDir_of e)), Respond 200,
             ExistsSync (workspaceDir_of e), RmSync (workspaceDir_of e)]
       \<and> error (compile_callback_execFile (compile_cb e))
       \<and> stderr (compile_callback_execFile (compile_cb e)) = trim (cb_stderr (compile_cb e))
       \<and> map_option compileError (fst (api_run_execFile e req w))
            = Some (trim (cb_stderr (compile_cb e)))
       \<and> map_option exitCode (fst (api_run_execFile e req w)) = Some (VNum n)
       \<and> ExecFile (lit ''docker'') (execute_args (workspaceDir_of e))
            \<notin> set (drop (length (trace w)) (trace (snd (api_run_execFile e req w))))"
  using assms
  by (simp add: accepted_def api_run_exec_def api_run_execFile_def api_run_def Let_def
      createWorkspace_ok respond_def then_cleanup_def compileCode_exec_def
      compileCode_execFile_def compile_callback_exec_def compile_callback_execFile_def
      opt_code_def js_or_def cleanupWorkspace_def executeCmd_not_compileCmd
      execute_args_not_compile_args)

theorem compile_failure_short_circuits_witness:
  "accepted sample_request \<and> is_string (stdin_of sample_request)
   \<and> map_option compileError (fst (api_run_exec
         (sample_env\<lparr>compile_cb := \<lparr>cb_error = Some (exited 1), cb_stdout = [],
                                     cb_stderr = lit ''main.c:1:1: error''\<rparr>\<rparr>)
         sample_request fresh)) = Some (lit ''main.c:1:1: error'')
   \<and> map_option exitCode (fst (api_run_exec
         (sample_env\<lparr>compile_cb := \<lparr>cb_error = Some (exited 1), cb_stdout = [],
                                     cb_stderr = lit ''main.c:1:1: error''\<rparr>\<rparr>)
         sample_request fresh)) = Some (VNum 1)
   \<and> Exec (executeCmd (workspaceDir_of sample_env))
        \<notin> set (trace (snd (api_run_exec
         (sample_env\<lparr>compile_cb := \<lparr>cb_error = Some (exited 1), cb_stdout = [],
                                     cb_stderr = lit ''main.c:1:1: error''\<rparr>\<rparr>)
         sample_request fresh)))"
proof -
  have w: "workspaceDir_of (sample_env\<lparr>compile_cb := cb\<rparr>) = workspaceDir_of sample_env" for cb
    by (simp add: workspaceDir_of_def)
  show ?thesis
    using compile_failure_short_circuits [of sample_request
      "sample_env\<lparr>compile_cb := \<lparr>cb_error = Some (exited 1), cb_stdout = [],
                                  cb_stderr = lit ''main.c:1:1: error''\<rparr>\<rparr>"
      "exited 1" 1 fresh] sample_accepted
    by (simp add: w) (simp add: sample_env_def exited_def fresh_def)
qed

section \<open>Reading the exit status back from the script's output\<close>

lemma dec_digits: "c \<in> set (dec n) \<Longrightarrow> 48 \<le> c \<and> c \<le> 57"
proof (induction n arbitrary: c rule: dec.induct)
  case (1 n)
  show ?case
  proof (cases "n < 10")
    case True
    with "1.prems" show ?thesis by (simp add: dec.simps [of n])
  next
    case False
    with "1.prems" "1.IH" show ?thesis
      by (auto simp: dec.simps [of n])
  qed
qed

lemma dec_nonempty: "dec n \<noteq> []"
  by (subst dec.simps) simp

lemma digits_value_snoc:
  "digits_value r (xs @ [d]) = digits_value r xs * r + digit_of d"
  by (simp add: digits_value_def)

lemma digit_of_digit: "k < 10 \<Longrightarrow> digit_of (48 + k) = k"
  by (simp add: digit_of_def)

lemma digits_value_dec: "digits_value 10 (dec n) = n"
proof (induction n rule: dec.induct)
  case (1 n)
  show ?case
  proof (cases "n < 10")
    case True
    then show ?thesis by (simp add: dec.simps [of n] digits_value_def digit_of_digit)
  next
    case False
    have "n mod 10 < 10" by simp
    with False "1.IH" show ?thesis
      by (simp add: dec.simps [of n] digits_value_snoc digit_of_digit)
  qed
qed

lemma split_from_colon:
  "split_from [58] cur s =
     (rev cur @ takeWhile (\<lambda>c. c \<noteq> 58) s) #
     (case dropWhile (\<lambda>c. c \<noteq> 58) s of [] \<Rightarrow> [] | x # r \<Rightarrow> split_from [58] [] r)"
  by (induction s arbitrary: cur) (simp_all add: startsWith_def)

lemma split_colon_second:
  assumes "58 \<notin> set a"
  shows "\<exists>ps. split (a @ 58 # b) [58] = a # takeWhile (\<lambda>c. c \<noteq> 58) b # ps"
proof -
  have tw: "takeWhile (\<lambda>c. c \<noteq> 58) (a @ 58 # b) = a"
    using assms by (induction a) auto
  have dw: "dropWhile (\<lambda>c. c \<noteq> 58) (a @ 58 # b) = 58 # b"
    using assms by (induction a) auto
  have "split_from [58] [] (a @ 58 # b) = a # split_from [58] [] b"
    using split_from_colon [of "[]" "a @ 58 # b"] by (simp add: tw dw)
  also have "split_from [58] [] b = takeWhile (\<lambda>c. c \<noteq> 58) b #
      (case dropWhile (\<lambda>c. c \<noteq> 58) b of [] \<Rightarrow> [] | x # r \<Rightarrow> split_from [58] [] r)"
    using split_from_colon [of "[]" b] by simp
  finally show ?thesis by (simp add: split_def)
qed

lemma to_double_small: "n < 2 ^ 53 \<Longrightarrow> to_double n = Some n"
  by (simp add: to_double_def excess.simps)

lemma parseInt_dec:
  assumes "n < 2 ^ 53"
  shows "parseInt (dec n @ 10 # r) = VNum (int n)"
proof -
  obtain d ds where d: "dec n = d # ds" using dec_nonempty [of n] by (cases "dec n") auto
  have dig: "\<And>c. c \<in> set (d # ds) \<Longrightarrow> 48 \<le> c \<and> c \<le> 57"
    using dec_digits [of _ n] d by simp
  have d48: "48 \<le> d \<and> d \<le> 57" using dig by simp
  have ws: "dropWhile white_space (dec n @ 10 # r) = dec n @ 10 # r"
    using d48 by (simp add: d white_space_def)
  have sg: "parse_sign (dec n @ 10 # r) = (1, dec n @ 10 # r)"
    using d48 by (simp add: d parse_sign_def)
  have rd: "parse_radix (dec n @ 10 # r) = (10, dec n @ 10 # r)"
  proof (cases ds)
    case Nil
    then show ?thesis by (simp add: d parse_radix_def)
  next
    case (Cons x xs)
    with dig [of x] have "x \<le> 57" by simp
    with Cons show ?thesis by (simp add: d parse_radix_def)
  qed
  have all: "digit_of c < 10" if "c \<in> set (dec n)" for c
    using dec_digits [of c n] that by (auto simp: digit_of_def)
  have lf: "\<not> digit_of 10 < 10" by (simp add: digit_of_def)
  have tw: "takeWhile (\<lambda>c. digit_of c < 10) (dec n @ 10 # r) = dec n"
    by (simp add: all lf)
  show ?thesis
    by (simp add: parseInt_def ws sg rd tw dec_nonempty digits_value_dec
        to_double_small [OF assms] del: dropWhile_append)
qed

lemma lit_exit_code: "lit ''EXIT_CODE:'' = lit ''EXIT_CODE'' @ [58]"
  by (simp add: lit_def)

text \<open>The pieces of \<open>split\<close>: the first is a prefix of the string, and a later one
  starts with \<open>p\<close> only where the separator followed by \<open>p\<close> is in the string.\<close>

lemma split_from_pass:
  "92 \<notin> set a \<Longrightarrow> split_from [92, 110] cur (a @ b) = split_from [92, 110] (rev a @ cur) b"
  by (induction a arbitrary: cur) (auto simp: startsWith_def)

lemma split_from_nonempty: "split_from sep cur s \<noteq> []"
  by (induction sep cur s rule: split_from.induct) auto

lemma split_from_first:
  "split_from sep cur s = p # ps \<Longrightarrow> \<exists>n. p = rev cur @ take n s"
proof (induction sep cur s arbitrary: p ps rule: split_from.induct)
  case (1 sep cur)
  then show ?case by simp
next
  case (2 sep cur c cs)
  show ?case
  proof (cases "sep \<noteq> [] \<and> startsWith (c # cs) sep")
    case True
    with "2.prems" have "p = rev cur @ take 0 (c # cs)" by simp
    then show ?thesis by blast
  next
    case False
    with "2.prems" have "split_from sep (c # cur) cs = p # ps" by simp
    from "2.IH"(2) [OF False this] obtain n where "p = rev (c # cur) @ take n cs" by blast
    then have "p = rev cur @ take (Suc n) (c # cs)" by simp
    then show ?thesis by blast
  qed
qed

lemma startsWith_take: "startsWith (take n s) p \<Longrightarrow> startsWith s p"
proof -
  assume a: "startsWith (take n s) p"
  then have e: "take (min (length p) n) s = p" by (simp add: startsWith_def)
  then have "length p \<le> n" by (metis length_take min.cobounded2 min.absorb1 min.boundedE)
  with e show ?thesis by (simp add: startsWith_def min_def)
qed

lemma js_includes_drop: "js_includes (drop n s) p \<Longrightarrow> js_includes s p"
proof (induction s arbitrary: n)
  case Nil
  then show ?case by simp
next
  case (Cons c cs)
  then show ?case by (cases n) auto
qed

lemma split_from_later:
  "split_from sep cur s = p # ps \<Longrightarrow> \<not> js_includes s (sep @ x) \<Longrightarrow> q \<in> set ps \<Longrightarrow>
   \<not> startsWith q x"
proof (induction sep cur s arbitrary: p ps rule: split_from.induct)
  case (1 sep cur)
  then show ?case by simp
next
  case (2 sep cur c cs)
  show ?case
  proof (cases "sep \<noteq> [] \<and> startsWith (c # cs) sep")
    case True
    let ?rest = "drop (length sep) (c # cs)"
    from True have "take (length sep) (c # cs) = sep"
      by (simp add: startsWith_def)
    then have whole: "c # cs = sep @ ?rest"
      using append_take_drop_id [of "length sep" "c # cs"] by simp
    from True "2.prems"(1) have ps: "ps = split_from sep [] ?rest" by simp
    obtain p' ps' where p': "split_from sep [] ?rest = p' # ps'"
      using split_from_nonempty [of sep "[]" ?rest]
      by (cases "split_from sep [] ?rest") auto
    have no: "\<not> js_includes ?rest (sep @ x)"
      using "2.prems"(2) js_includes_drop [of "length sep" "c # cs" "sep @ x"] by blast
    show ?thesis
    proof (cases "q = p'")
      case q: True
      from split_from_first [OF p'] obtain n where n: "p' = take n ?rest" by auto
      show ?thesis
      proof
        assume "startsWith q x"
        with q n have "startsWith ?rest x" using startsWith_take by blast
        then have "startsWith (sep @ ?rest) (sep @ x)" by (simp add: startsWith_def)
        then have "startsWith (c # cs) (sep @ x)" using whole by metis
        with "2.prems"(2) show False by simp
      qed
    next
      case False
      with "2.prems"(3) ps p' have "q \<in> set ps'" by simp
      from "2.IH"(1) [OF True p' no this] show ?thesis .
    qed
  next
    case False
    with "2.prems"(1) have sp: "split_from sep (c # cur) cs = p # ps" by simp
    from "2.prems"(2) have no: "\<not> js_includes cs (sep @ x)" by simp
    from "2.IH"(2) [OF False sp no "2.prems"(3)] show ?thesis .
  qed
qed

lemma find_markers_keeps:
  "(\<And>q. q \<in> set ls \<Longrightarrow> \<not> startsWith q (lit ''EXIT_CODE:'')) \<Longrightarrow>
   exitCodeLine (find_markers ls i m) = exitCodeLine m"
  by (induction ls arbitrary: i m) simp_all

text \<open>
  The status that \<open>index.js\<close> reads from the output of the script is the one the script
  printed, whenever the output holds no \<open>EXIT_CODE:\<close> directly behind the separator
  the code splits on.
\<close>

lemma execute_callback_exec_status:
  assumes no: "\<not> js_includes (script_output n out err) ([92, 110] @ lit ''EXIT_CODE:'')"
    and n: "n < 2 ^ 53"
  shows "exitCode (execute_callback_exec
            \<lparr>cb_error = ce, cb_stdout = script_output n out err, cb_stderr = x\<rparr>) = VNum (int n)
       \<and> timedOut (execute_callback_exec
            \<lparr>cb_error = ce, cb_stdout = script_output n out err, cb_stderr = x\<rparr>)
          = VBool (n = 124)"
proof -
  let ?blob = "script_output n out err"
  let ?head = "lit ''EXIT_CODE:'' @ dec n @ [10] @ lit ''---STDOUT---'' @ [10]"
  let ?rest = "out @ lit ''---STDERR---'' @ [10] @ err"
  have blob: "?blob = ?head @ ?rest" by (simp add: script_output_def)
  have h92: "92 \<notin> set ?head"
    using dec_digits [of 92 n] by (auto simp: lit_def)
  obtain p ps where sp: "split_from [92, 110] [] ?blob = p # ps"
    using split_from_nonempty [of "[92, 110]" "[]" ?blob]
    by (cases "split_from [92, 110] [] ?blob") auto
  have "split_from [92, 110] [] ?blob = split_from [92, 110] (rev ?head) ?rest"
    unfolding blob using split_from_pass [OF h92, of "[]" ?rest] by simp
  with sp have "split_from [92, 110] (rev ?head) ?rest = p # ps" by simp
  from split_from_first [OF this] obtain k where p: "p = ?head @ take k ?rest" by auto
  have later: "\<not> startsWith q (lit ''EXIT_CODE:'')" if "q \<in> set ps" for q
    using split_from_later [OF sp no that] .
  have sw: "startsWith p (lit ''EXIT_CODE:'')"
    by (simp add: p startsWith_def)
  have ne: "p \<noteq> []" by (simp add: p lit_def)
  have line: "exitCodeLine (find_markers (p # ps) 0
      \<lparr>exitCodeLine = [], stdoutStartIndex = - 1, stderrStartIndex = - 1\<rparr>) = p"
    using sw by (simp add: find_markers_keeps [OF later])
  have c58: "58 \<notin> set (lit ''EXIT_CODE'')" by (simp add: lit_def)
  obtain qs where qs: "split p (lit '':'') = lit ''EXIT_CODE'' #
      takeWhile (\<lambda>c. c \<noteq> 58) (dec n @ 10 # lit ''---STDOUT---'' @ [10] @ take k ?rest) # qs"
    using split_colon_second [OF c58,
        of "dec n @ 10 # lit ''---STDOUT---'' @ [10] @ take k ?rest"]
    by (auto simp: p lit_exit_code) (simp add: lit_def)
  have d58: "\<And>c. c \<in> set (dec n) \<Longrightarrow> c \<noteq> 58"
    using dec_digits by fastforce
  have tw: "takeWhile (\<lambda>c. c \<noteq> 58) (dec n @ 10 # r) =
      dec n @ 10 # takeWhile (\<lambda>c. c \<noteq> 58) r" for r
    by (simp add: d58)
  have pi: "parseInt_at (split p (lit '':'')) (Suc 0) = VNum (int n)"
    by (simp add: qs parseInt_at_def tw parseInt_dec [OF n])
  show ?thesis
    using line ne pi
    by (simp add: execute_callback_exec_def split_def sp Let_def)
qed


section \<open>Crashes of the program\<close>

text \<open>
  C5, as the code has it. A program that ends with a status of its own, without a
  deadline being hit, in a request that was accepted, whose workspace was made and
  whose compilation succeeded:
  in the \<open>execFile\<close> backend the status \<open>n\<close> that node reports, with \<open>error.killed\<close>
  not set, is the \<open>exitCode\<close> of the response, \<open>timedOut\<close> is false and \<open>compileError\<close>
  is empty;
  in \<open>index.js\<close> the same holds for the status \<open>m\<close> the script prints (a shell status
  is at most 255; any \<open>m\<close> below \<open>2^53\<close> will do), provided that \<open>m\<close> is not 124 and
  that the output of the script holds no \<open>EXIT_CODE:\<close> at the head of a piece: neither
  directly behind the two code units backslash \<open>n\<close>, on which the code splits, nor
  directly behind a line feed, at the head of a line.
\<close>

theorem crash_passes_through:
  assumes "accepted req" and "is_string (stdin_of req)"
    and "mkdir_error e = None" and "main_error e = None" and "input_error e = None"
    and "cb_error (compile_cb e) = None"
  shows "(cb_error (run_cb e) = Some err \<and> code err = VNum n \<and> \<not> truthy (killed err) \<longrightarrow>
            map_option exitCode (fst (api_run_execFile e req w)) = Some (VNum n)
          \<and> map_option timedOut (fst (api_run_execFile e req w)) = Some (VBool False)
          \<and> map_option compileError (fst (api_run_execFile e req w)) = Some [])
       \<and> (cb_stdout (run_cb e) = script_output m out err' \<and> m \<noteq> 124 \<and> m < 2 ^ 53
            \<and> \<not> js_includes (script_output m out err') ([92, 110] @ lit ''EXIT_CODE:'')
            \<and> \<not> js_includes (script_output m out err') ([10] @ lit ''EXIT_CODE:'') \<longrightarrow>
            map_option exitCode (fst (api_run_exec e req w)) = Some (VNum (int m))
          \<and> map_option timedOut (fst (api_run_exec e req w)) = Some (VBool False)
          \<and> map_option compileError (fst (api_run_exec e req w)) = Some [])"
proof (intro conjI impI)
  assume a: "cb_error (run_cb e) = Some err \<and> code err = VNum n \<and> \<not> truthy (killed err)"
  then have "execute_callback_execFile (run_cb e) =
      \<lparr>stdout = trim (cb_stdout (run_cb e)), stderr = trim (cb_stderr (run_cb e)),
       exitCode = VNum n, timedOut = VBool False\<rparr>"
    by (simp add: execute_callback_execFile_def opt_code_def opt_killed_def js_or_def)
  then show "map_option exitCode (fst (api_run_execFile e req w)) = Some (VNum n)"
    "map_option timedOut (fst (api_run_execFile e req w)) = Some (VBool False)"
    "map_option compileError (fst (api_run_execFile e req w)) = Some []"
    by (simp_all add: api_run_execFile_executed [OF assms])
next
  assume a: "cb_stdout (run_cb e) = script_output m out err' \<and> m \<noteq> 124 \<and> m < 2 ^ 53
            \<and> \<not> js_includes (script_output m out err') ([92, 110] @ lit ''EXIT_CODE:'')
            \<and> \<not> js_includes (script_output m out err') ([10] @ lit ''EXIT_CODE:'')"
  obtain ce x where r: "run_cb e =
      \<lparr>cb_error = ce, cb_stdout = script_output m out err', cb_stderr = x\<rparr>"
    using a by (cases "run_cb e") simp
  from a have "exitCode (execute_callback_exec (run_cb e)) = VNum (int m)
      \<and> timedOut (execute_callback_exec (run_cb e)) = VBool (m = 124)"
    unfolding r using execute_callback_exec_status [of m out err' ce x] by blast
  with a show "map_option exitCode (fst (api_run_exec e req w)) = Some (VNum (int m))"
    "map_option timedOut (fst (api_run_exec e req w)) = Some (VBool False)"
    "map_option compileError (fst (api_run_exec e req w)) = Some []"
    by (simp_all add: api_run_exec_executed [OF assms])
qed

lemma dec_139: "dec 139 = [49, 51, 57]"
  by (simp add: dec.simps)

lemma dec_124: "dec 124 = [49, 50, 52]"
  by (simp add: dec.simps)

lemma dec_0: "dec 0 = [48]"
  by (simp add: dec.simps)

theorem crash_passes_through_witness:
  "accepted sample_request \<and> is_string (stdin_of sample_request)
   \<and> \<not> js_includes (script_output 139 (lit ''C:'' @ [92] @ lit ''dir'') [])
        ([92, 110] @ lit ''EXIT_CODE:'')
   \<and> \<not> js_includes (script_output 139 (lit ''C:'' @ [92] @ lit ''dir'') [])
        ([10] @ lit ''EXIT_CODE:'')
   \<and> map_option exitCode (fst (api_run_execFile
        (sample_env\<lparr>run_cb := \<lparr>cb_error = Some (exited 139), cb_stdout = [], cb_stderr = []\<rparr>\<rparr>)
        sample_request fresh)) = Some (VNum 139)
   \<and> map_option timedOut (fst (api_run_execFile
        (sample_env\<lparr>run_cb := \<lparr>cb_error = Some (exited 139), cb_stdout = [], cb_stderr = []\<rparr>\<rparr>)
        sample_request fresh)) = Some (VBool False)
   \<and> map_option exitCode (fst (api_run_exec
        (sample_env\<lparr>run_cb := \<lparr>cb_error = None,
            cb_stdout = script_output 139 (lit ''C:'' @ [92] @ lit ''dir'') [],
            cb_stderr = []\<rparr>\<rparr>)
        sample_request fresh)) = Some (VNum 139)
   \<and> map_option timedOut (fst (api_run_exec
        (sample_env\<lparr>run_cb := \<lparr>cb_error = None,
            cb_stdout = script_output 139 (lit ''C:'' @ [92] @ lit ''dir'') [],
            cb_stderr = []\<rparr>\<rparr>)
        sample_request fresh)) = Some (VBool False)"
proof -
  have 1: "\<not> js_includes (script_output 139 (lit ''C:'' @ [92] @ lit ''dir'') [])
        ([92, 110] @ lit ''EXIT_CODE:'')"
    by (simp add: script_output_def dec_139 lit_def startsWith_def)
  have 2: "\<not> js_includes (script_output 139 (lit ''C:'' @ [92] @ lit ''dir'') [])
        ([10] @ lit ''EXIT_CODE:'')"
    by (simp add: script_output_def dec_139 lit_def startsWith_def)
  show ?thesis
    using crash_passes_through [of sample_request
      "sample_env\<lparr>run_cb := \<lparr>cb_error = Some (exited 139), cb_stdout = [], cb_stderr = []\<rparr>\<rparr>"
      "exited 139" 139 fresh 0 "[]" "[]"]
    crash_passes_through [of sample_request
      "sample_env\<lparr>run_cb := \<lparr>cb_error = None,
            cb_stdout = script_output 139 (lit ''C:'' @ [92] @ lit ''dir'') [],
            cb_stderr = []\<rparr>\<rparr>"
      "exited 1" 1 fresh 139 "lit ''C:'' @ [92] @ lit ''dir''" "[]"]
      sample_accepted 1 2
    by (simp add: sample_env_def quiet_def exited_def)
qed

text \<open>
  C5 as stated fails in \<open>index.js\<close>. A program that prints the two code units
  backslash \<open>n\<close>, then \<open>EXIT_CODE:0\<close>, then backslash \<open>n\<close> again, and then dies of a
  segmentation fault (status 139) is answered with \<open>exitCode\<close> 0, since the last
  piece of the output that starts with \<open>EXIT_CODE:\<close> wins; and a program that itself
  exits with 124 is answered with \<open>timedOut = true\<close>.
\<close>

theorem crash_status_replaced:
  "map_option exitCode (fst (api_run_exec
      (sample_env\<lparr>run_cb := \<lparr>cb_error = None,
          cb_stdout = script_output 139 ([92, 110] @ lit ''EXIT_CODE:0'' @ [92, 110]) [],
          cb_stderr = []\<rparr>\<rparr>)
      sample_request fresh)) = Some (VNum 0)
   \<and> map_option timedOut (fst (api_run_exec
      (sample_env\<lparr>run_cb := \<lparr>cb_error = None, cb_stdout = script_output 124 [] [],
          cb_stderr = []\<rparr>\<rparr>)
      sample_request fresh)) = Some (VBool True)"
proof -
  have z: "to_double 0 = Some 0" by (simp add: to_double_small)
  have 1: "exitCode (execute_callback_exec \<lparr>cb_error = None,
          cb_stdout = script_output 139 ([92, 110] @ lit ''EXIT_CODE:0'' @ [92, 110]) [],
          cb_stderr = []\<rparr>) = VNum 0"
    by (simp add: execute_callback_exec_def script_output_def lit_def split_def startsWith_def
        parseInt_at_def parseInt_def parse_sign_def parse_radix_def white_space_def
        digit_of_def digits_value_def dec_139 z)
  have n: "\<not> js_includes (script_output 124 [] []) ([92, 110] @ lit ''EXIT_CODE:'')"
    by (simp add: script_output_def dec_124 lit_def startsWith_def)
  have 2: "timedOut (execute_callback_exec \<lparr>cb_error = None,
          cb_stdout = script_output 124 [] [], cb_stderr = []\<rparr>) = VBool True"
    using execute_callback_exec_status [OF n, of None "[]"] by simp
  show ?thesis
    using 1 2 sample_accepted
    by (simp add: api_run_exec_executed sample_env_def quiet_def)
qed

section \<open>Cleanup of the workspace\<close>

lemma cleanupWorkspace_removes:
  "\<not> rm_throws e \<Longrightarrow> d \<notin> dirs (cleanupWorkspace e d w)"
  by (simp add: cleanupWorkspace_def Let_def)

lemma cleanupWorkspace_after:
  "trace (cleanupWorkspace e d (emit ev w)) = trace w @ [ev, ExistsSync d]
   \<or> trace (cleanupWorkspace e d (emit ev w)) = trace w @ [ev, ExistsSync d, RmSync d]"
  by (simp add: cleanupWorkspace_def Let_def)

text \<open>Behind every response to an accepted request comes the cleanup.\<close>

lemma api_run_accepted:
  assumes "accepted req" and "fst (api_run c x e req w) = Some r"
  shows "\<exists>w1. snd (api_run c x e req w) =
           cleanupWorkspace e (workspaceDir_of e) (emit (Respond (status r)) w1)"
proof -
  obtain k w1 where cw: "createWorkspace e (workspaceDir_of e) (req_code req)
      (stdin_of req) w = (k, w1)"
    by (cases "createWorkspace e (workspaceDir_of e) (req_code req) (stdin_of req) w") auto
  obtain cr w2 where c: "c (workspaceDir_of e) e w1 = (cr, w2)"
    by (cases "c (workspaceDir_of e) e w1") auto
  obtain xr w3 where x: "x (workspaceDir_of e) e w2 = (xr, w3)"
    by (cases "x (workspaceDir_of e) e w2") auto
  show ?thesis
  proof (cases k)
    case Thrown
    with assms cw show ?thesis
      by (simp add: api_run_def accepted_def Let_def)
  next
    case (Rejected message)
    with assms cw show ?thesis
      by (auto simp: api_run_def accepted_def Let_def respond_def then_cleanup_def)
  next
    case Resolved
    show ?thesis
    proof (cases "error cr")
      case True
      with Resolved assms cw c show ?thesis
        by (auto simp: api_run_def accepted_def Let_def respond_def then_cleanup_def)
    next
      case False
      with Resolved assms cw c x show ?thesis
        by (auto simp: api_run_def accepted_def Let_def respond_def then_cleanup_def)
    qed
  qed
qed

lemma api_run_exec_rm_throws:
  assumes "accepted req" and "is_string (stdin_of req)"
    and "mkdir_error e = None" and "main_error e = None" and "input_error e = None"
    and "rm_throws e"
  shows "workspaceDir_of e \<in> dirs (snd (api_run_exec e req w))"
  using assms
  by (simp add: accepted_def api_run_exec_def api_run_def Let_def createWorkspace_ok
      respond_def then_cleanup_def compileCode_exec_def executeCode_exec_def
      cleanupWorkspace_def)

text \<open>A \<open>stdin\<close> that is not a string ends the server behind the first two file system
  calls.\<close>

lemma api_run_thrown:
  assumes "accepted req" and "\<not> is_string (stdin_of req)"
    and "mkdir_error e = None" and "main_error e = None"
  shows "fst (api_run c x e req w) = None
       \<and> workspaceDir_of e \<in> dirs (snd (api_run c x e req w))"
  using assms
  by (simp add: accepted_def api_run_def Let_def createWorkspace_def)

text \<open>
  C6, as the code has it. For every accepted request that is answered, whatever the
  answer (workspace failure, compile failure, any result of the execution), the handler
  ends with the cleanup of the workspace, right behind the response: the last things it
  does are to respond, to test that the directory exists and, if it does, to remove it.
  Unless \<open>fs.rmSync\<close> throws, the workspace directory does not exist afterwards.
\<close>

theorem workspace_removed_unless_rm_fails:
  assumes "accepted req"
  shows "(fst (api_run_exec e req w) = Some r \<longrightarrow>
            (\<not> rm_throws e \<longrightarrow> workspaceDir_of e \<notin> dirs (snd (api_run_exec e req w)))
          \<and> (\<exists>evs. trace (snd (api_run_exec e req w)) =
                 evs @ [Respond (status r), ExistsSync (workspaceDir_of e)]
               \<or> trace (snd (api_run_exec e req w)) =
                 evs @ [Respond (status r), ExistsSync (workspaceDir_of e),
                        RmSync (workspaceDir_of e)]))
       \<and> (fst (api_run_execFile e req w) = Some r' \<longrightarrow>
            (\<not> rm_throws e \<longrightarrow> workspaceDir_of e \<notin> dirs (snd (api_run_execFile e req w)))
          \<and> (\<exists>evs. trace (snd (api_run_execFile e req w)) =
                 evs @ [Respond (status r'), ExistsSync (workspaceDir_of e)]
               \<or> trace (snd (api_run_execFile e req w)) =
                 evs @ [Respond (status r'), ExistsSync (workspaceDir_of e),
                        RmSync (workspaceDir_of e)]))"
proof -
  have "(\<not> rm_throws e \<longrightarrow> workspaceDir_of e \<notin> dirs (snd (api_run c x e req w)))
       \<and> (\<exists>evs. trace (snd (api_run c x e req w)) =
              evs @ [Respond (status a), ExistsSync (workspaceDir_of e)]
            \<or> trace (snd (api_run c x e req w)) =
              evs @ [Respond (status a), ExistsSync (workspaceDir_of e),
                     RmSync (workspaceDir_of e)])"
    if a: "fst (api_run c x e req w) = Some a" for c x a
  proof -
    from api_run_accepted [OF assms a] obtain w1 where
      s: "snd (api_run c x e req w) = cleanupWorkspace e (workspaceDir_of e)
             (emit (Respond (status a)) w1)" by blast
    show ?thesis
      unfolding s
      using cleanupWorkspace_after [of e "workspaceDir_of e" "Respond (status a)" w1]
      by (auto simp: cleanupWorkspace_removes)
  qed
  then show ?thesis unfolding api_run_exec_def api_run_execFile_def by blast
qed

lemma sample_run_exec:
  "fst (api_run_exec (sample_env\<lparr>rm_throws := b\<rparr>) sample_request fresh) =
     Some \<lparr>stdout = [], stderr = [], exitCode = VNum 0, timedOut = VBool False,
           compileError = [], status = 200\<rparr>"
  using sample_accepted
  by (subst api_run_exec_executed)
    (simp_all add: sample_env_def quiet_def execute_callback_exec_def split_def
      startsWith_def lit_def)

lemma sample_workspace_rm:
  "workspaceDir_of (sample_env\<lparr>rm_throws := b\<rparr>) = workspaceDir_of sample_env"
  by (simp add: workspaceDir_of_def)

theorem workspace_removed_unless_rm_fails_witness:
  "accepted sample_request
   \<and> fst (api_run_exec sample_env sample_request fresh) =
       Some \<lparr>stdout = [], stderr = [], exitCode = VNum 0, timedOut = VBool False,
             compileError = [], status = 200\<rparr>
   \<and> \<not> rm_throws sample_env
   \<and> workspaceDir_of sample_env \<notin> dirs (snd (api_run_exec sample_env sample_request fresh))"
  using workspace_removed_unless_rm_fails [of sample_request sample_env fresh
      "\<lparr>stdout = [], stderr = [], exitCode = VNum 0, timedOut = VBool False,
        compileError = [], status = 200\<rparr>"]
    sample_run_exec [of False] sample_accepted
  by (simp add: sample_env_def)

text \<open>
  C6 as stated fails on two exit paths. Where \<open>fs.rmSync\<close> throws, \<open>cleanupWorkspace\<close>
  catches and logs the exception: the response (here a success, status 200) has been
  sent, and the workspace directory is still there. And for a request whose \<open>stdin\<close> is
  not a string (here the number 5), \<open>createWorkspace\<close> throws in its callback after
  the directory was made: no response is sent, no cleanup runs, and the directory is
  still there.
\<close>

theorem workspace_survives:
  "fst (api_run_exec (sample_env\<lparr>rm_throws := True\<rparr>) sample_request fresh) =
     Some \<lparr>stdout = [], stderr = [], exitCode = VNum 0, timedOut = VBool False,
           compileError = [], status = 200\<rparr>
   \<and> workspaceDir_of sample_env
        \<in> dirs (snd (api_run_exec (sample_env\<lparr>rm_throws := True\<rparr>) sample_request fresh))
   \<and> accepted (sample_request\<lparr>req_stdin := VNum 5\<rparr>)
   \<and> fst (api_run_exec sample_env (sample_request\<lparr>req_stdin := VNum 5\<rparr>) fresh) = None
   \<and> workspaceDir_of sample_env
        \<in> dirs (snd (api_run_exec sample_env (sample_request\<lparr>req_stdin := VNum 5\<rparr>) fresh))"
proof -
  have 1: "workspaceDir_of sample_env
        \<in> dirs (snd (api_run_exec (sample_env\<lparr>rm_throws := True\<rparr>) sample_request fresh))"
    using api_run_exec_rm_throws [of sample_request "sample_env\<lparr>rm_throws := True\<rparr>" fresh]
      sample_accepted
    by (simp add: sample_workspace_rm) (simp add: sample_env_def quiet_def)
  have 2: "accepted (sample_request\<lparr>req_stdin := VNum 5\<rparr>)"
    by (simp add: accepted_def sample_request_def lit_def)
  have 3: "fst (api_run_exec sample_env (sample_request\<lparr>req_stdin := VNum 5\<rparr>) fresh) = None
     \<and> workspaceDir_of sample_env
        \<in> dirs (snd (api_run_exec sample_env (sample_request\<lparr>req_stdin := VNum 5\<rparr>) fresh))"
    using api_run_thrown [OF 2, of sample_env compileCode_exec executeCode_exec fresh]
    by (simp add: api_run_exec_def) (simp add: stdin_of_def sample_env_def)
  show ?thesis
    using 1 2 3 sample_run_exec [of True] by simp
qed

section \<open>Deadlines\<close>

text \<open>
  C4 at the inputs where the code departs from it. Node kills the docker command at
  the \<open>timeout\<close> of \<open>exec\<close>/\<open>execFile\<close> and calls back with \<open>error.killed = true\<close> and
  \<open>error.code = null\<close>. In \<open>index.js\<close> this is the outer, supervisory deadline of 15 s;
  the script has printed nothing yet, so no \<open>EXIT_CODE:\<close> piece is found: the outcome is
  exit code 1 with \<open>timedOut = false\<close> (and exit code 143 with \<open>timedOut = false\<close>
  where docker passes the signal on and ends with 143 itself). In the \<open>execFile\<close>
  backend it is the only deadline; the outcome has \<open>timedOut = true\<close>, but the exit
  code 0 of a success.
\<close>

theorem outer_deadline_kill_not_flagged:
  "execute_callback_exec \<lparr>cb_error = Some killed_by_node, cb_stdout = [], cb_stderr = []\<rparr>
     = \<lparr>stdout = [], stderr = [], exitCode = VNum 1, timedOut = VBool False\<rparr>
   \<and> execute_callback_exec
       \<lparr>cb_error = Some \<lparr>code = VNum 143, killed = VBool True\<rparr>, cb_stdout = [],
        cb_stderr = []\<rparr>
     = \<lparr>stdout = [], stderr = [], exitCode = VNum 143, timedOut = VBool False\<rparr>
   \<and> execute_callback_execFile \<lparr>cb_error = Some killed_by_node, cb_stdout = [], cb_stderr = []\<rparr>
     = \<lparr>stdout = [], stderr = [], exitCode = VNum 0, timedOut = VBool True\<rparr>"
  by (simp add: execute_callback_exec_def execute_callback_execFile_def killed_by_node_def
      split_def startsWith_def lit_def js_or_def opt_code_def opt_killed_def trim_def)

section \<open>The two output streams\<close>

text \<open>
  C8, as the code has it: in the \<open>execFile\<close> backend the \<open>stdout\<close> and \<open>stderr\<close> of the
  response of an executed request are the two streams of the callback, each trimmed
  and each independent of the other; no marker is looked for in them.
\<close>

theorem execFile_streams_separate:
  assumes "accepted req" and "is_string (stdin_of req)"
    and "mkdir_error e = None" and "main_error e = None" and "input_error e = None"
    and "cb_error (compile_cb e) = None"
  shows "map_option stdout (fst (api_run_execFile e req w)) = Some (trim (cb_stdout (run_cb e)))
       \<and> map_option stderr (fst (api_run_execFile e req w)) = Some (trim (cb_stderr (run_cb e)))"
  by (simp add: api_run_execFile_executed [OF assms] execute_callback_execFile_def Let_def)

theorem execFile_streams_separate_witness:
  "accepted sample_request \<and> is_string (stdin_of sample_request)
   \<and> map_option stdout (fst (api_run_execFile
        (sample_env\<lparr>run_cb := \<lparr>cb_error = None, cb_stdout = lit ''---STDERR---'' @ [10],
                                cb_stderr = lit ''oops'' @ [10]\<rparr>\<rparr>)
        sample_request fresh)) = Some (lit ''---STDERR---'')
   \<and> map_option stderr (fst (api_run_execFile
        (sample_env\<lparr>run_cb := \<lparr>cb_error = None, cb_stdout = lit ''---STDERR---'' @ [10],
                                cb_stderr = lit ''oops'' @ [10]\<rparr>\<rparr>)
        sample_request fresh)) = Some (lit ''oops'')"
  using execFile_streams_separate [of sample_request
      "sample_env\<lparr>run_cb := \<lparr>cb_error = None, cb_stdout = lit ''---STDERR---'' @ [10],
                                cb_stderr = lit ''oops'' @ [10]\<rparr>\<rparr>" fresh]
    sample_accepted
  by (simp add: sample_env_def quiet_def lit_def trim_def white_space_def)

text \<open>
  C8 as stated fails in \<open>index.js\<close>, which recovers both streams from the one output of
  the script by looking for the marker pieces. Two programs that write nothing to
  stderr: the first prints nothing, the second prints \<open>X\<close>, backslash \<open>n\<close>,
  \<open>---STDERR---\<close>, backslash \<open>n\<close>, \<open>Y\<close> to stdout. The stderr reported for the second is
  \<open>Y---STDERR---\<close> and a line feed, text that comes from its stdout and from the script.
\<close>

theorem marker_text_changes_streams:
  "map_option stderr (fst (api_run_exec
      (sample_env\<lparr>run_cb := \<lparr>cb_error = None, cb_stdout = script_output 0 [] [],
          cb_stderr = []\<rparr>\<rparr>)
      sample_request fresh)) = Some []
   \<and> map_option stderr (fst (api_run_exec
      (sample_env\<lparr>run_cb := \<lparr>cb_error = None,
          cb_stdout = script_output 0
            (lit ''X'' @ [92, 110] @ lit ''---STDERR---'' @ [92, 110] @ lit ''Y'') [],
          cb_stderr = []\<rparr>\<rparr>)
      sample_request fresh)) = Some (lit ''Y---STDERR---'' @ [10])"
proof -
  have 1: "stderr (execute_callback_exec \<lparr>cb_error = None,
          cb_stdout = script_output 0 [] [], cb_stderr = []\<rparr>) = []"
    by (simp add: execute_callback_exec_def script_output_def lit_def split_def startsWith_def
        dec_0 Let_def)
  have 2: "stderr (execute_callback_exec \<lparr>cb_error = None,
          cb_stdout = script_output 0
            (lit ''X'' @ [92, 110] @ lit ''---STDERR---'' @ [92, 110] @ lit ''Y'') [],
          cb_stderr = []\<rparr>) = lit ''Y---STDERR---'' @ [10]"
    by (simp add: execute_callback_exec_def script_output_def lit_def split_def startsWith_def
        slice_from_def rel_index_def dec_0 Let_def)
  show ?thesis
    using 1 2 sample_accepted
    by (simp add: api_run_exec_executed sample_env_def quiet_def)
qed

section \<open>Resource caps of build and run\<close>

lemma split_from_blank_append:
  "32 \<notin> set a \<Longrightarrow> split_from [32] cur (a @ b) = split_from [32] (rev a @ cur) b"
  by (induction a arbitrary: cur) (auto simp: startsWith_def)

lemma words_compileCmd:
  "32 \<notin> set d \<Longrightarrow> words (compileCmd d) =
     [lit ''docker'', lit ''run'', lit ''--rm'', lit ''-v'',
      [34] @ d @ lit '':/workspace'' @ [34],
      lit ''--workdir'', lit ''/workspace'', lit ''--memory=256m'', lit ''--cpus=0.5'',
      lit ''--network=none'', lit ''--user=1000:1000'', lit ''c-runner:latest'',
      lit ''gcc'', lit ''-std=c11'', lit ''-Wall'', lit ''-Wextra'', lit ''-O2'', lit ''main.c'',
      lit ''-o'', lit ''main'']"
  by (simp add: words_def split_def compileCmd_def lit_def startsWith_def
      split_from_blank_append)

lemma caps_compileCmd:
  "32 \<notin> set d \<Longrightarrow> caps (words (compileCmd d)) =
     [lit ''--memory=256m'', lit ''--cpus=0.5'', lit ''--network=none'',
      lit ''--user=1000:1000'']"
  by (simp add: words_compileCmd caps_def resource_cap_def lit_def startsWith_def)


lemma words_executeCmd:
  "32 \<notin> set d \<Longrightarrow> words (executeCmd d) =
     [lit ''docker'', lit ''run'', lit ''--rm'', lit ''-v'',
      [34] @ d @ lit '':/workspace'' @ [34],
      lit ''--workdir'', lit ''/workspace'', lit ''--memory=256m'', lit ''--cpus=0.5'',
      lit ''--pids-limit=64'', lit ''--network=none'', lit ''--user=1000:1000'',
      lit ''c-runner:latest'', lit ''sh'', lit ''-c'',
      [39] @ lit ''timeout'', lit ''3s'', lit ''./main'', lit ''<'', lit ''input.txt'', lit ''>'',
      lit ''program.out'', lit ''2>'', lit ''program.err;'', lit ''TIMEOUT_EXIT=$?;'',
      lit ''echo'', [34] @ lit ''EXIT_CODE:$TIMEOUT_EXIT'' @ [34] @ lit '';'',
      lit ''echo'', [34] @ lit ''---STDOUT---'' @ [34] @ lit '';'',
      lit ''cat'', lit ''program.out'', lit ''2>/dev/null'', lit ''||'', lit ''echo'',
      [34, 34] @ lit '';'',
      lit ''echo'', [34] @ lit ''---STDERR---'' @ [34] @ lit '';'',
      lit ''cat'', lit ''program.err'', lit ''2>/dev/null'', lit ''||'', lit ''echo'',
      [34, 34, 39]]"
  by (simp add: words_def split_def executeCmd_def lit_def startsWith_def
      split_from_blank_append)

lemma caps_executeCmd:
  "32 \<notin> set d \<Longrightarrow> caps (words (executeCmd d)) =
     [lit ''--memory=256m'', lit ''--cpus=0.5'', lit ''--pids-limit=64'', lit ''--network=none'',
      lit ''--user=1000:1000'']"
  by (simp add: words_executeCmd caps_def resource_cap_def lit_def startsWith_def)

lemma caps_args:
  assumes "startsWith d (lit ''/'')"
  shows "caps (compile_args d) =
     [lit ''--memory=256m'', lit ''--cpus=0.5'', lit ''--network=none'',
      lit ''--user=1000:1000'']"
    and "caps (execute_args d) =
     [lit ''--memory=256m'', lit ''--cpus=0.5'', lit ''--pids-limit=64'', lit ''--network=none'',
      lit ''--user=1000:1000'']"
    and "caps (interactive_compileCmd d) = []"
    and "caps (interactive_spawn_args d) = []"
proof -
  from assms obtain r where d: "d = 47 # r"
    by (cases d) (auto simp: startsWith_def lit_def)
  show "caps (compile_args d) =
     [lit ''--memory=256m'', lit ''--cpus=0.5'', lit ''--network=none'',
      lit ''--user=1000:1000'']"
    by (simp add: d compile_args_def caps_def resource_cap_def lit_def startsWith_def)
  show "caps (execute_args d) =
     [lit ''--memory=256m'', lit ''--cpus=0.5'', lit ''--pids-limit=64'', lit ''--network=none'',
      lit ''--user=1000:1000'']"
    by (simp add: d execute_args_def caps_def resource_cap_def lit_def startsWith_def)
  show "caps (interactive_compileCmd d) = []"
    by (simp add: d interactive_compileCmd_def caps_def resource_cap_def lit_def startsWith_def)
  show "caps (interactive_spawn_args d) = []"
    by (simp add: d interactive_spawn_args_def caps_def resource_cap_def lit_def startsWith_def)
qed

text \<open>
  C7, as the code has it. For a workspace path that is absolute and has no blank:
  in both batch backends the build container and the run container get the same memory
  ceiling, CPU share, network and user options, and the run container alone gets the
  process-count ceiling \<open>--pids-limit=64\<close>; the interactive server gives no resource
  cap to either container.
\<close>

theorem caps_of_build_and_run:
  assumes "startsWith d (lit ''/'')" and "32 \<notin> set d"
  shows "caps (words (compileCmd d)) =
           [lit ''--memory=256m'', lit ''--cpus=0.5'', lit ''--network=none'',
            lit ''--user=1000:1000'']
       \<and> caps (words (executeCmd d)) =
           [lit ''--memory=256m'', lit ''--cpus=0.5'', lit ''--pids-limit=64'',
            lit ''--network=none'', lit ''--user=1000:1000'']
       \<and> caps (compile_args d) =
           [lit ''--memory=256m'', lit ''--cpus=0.5'', lit ''--network=none'',
            lit ''--user=1000:1000'']
       \<and> caps (execute_args d) =
           [lit ''--memory=256m'', lit ''--cpus=0.5'', lit ''--pids-limit=64'',
            lit ''--network=none'', lit ''--user=1000:1000'']
       \<and> caps (interactive_compileCmd d) = []
       \<and> caps (interactive_spawn_args d) = []"
  using assms by (simp add: caps_compileCmd caps_executeCmd caps_args)

theorem caps_of_build_and_run_witness:
  "startsWith (workspaceDir_of sample_env) (lit ''/'') \<and> 32 \<notin> set (workspaceDir_of sample_env)
   \<and> caps (words (compileCmd (workspaceDir_of sample_env))) =
           [lit ''--memory=256m'', lit ''--cpus=0.5'', lit ''--network=none'',
            lit ''--user=1000:1000'']
   \<and> caps (words (executeCmd (workspaceDir_of sample_env))) =
           [lit ''--memory=256m'', lit ''--cpus=0.5'', lit ''--pids-limit=64'',
            lit ''--network=none'', lit ''--user=1000:1000'']"
  using caps_of_build_and_run [of "workspaceDir_of sample_env"]
  by (simp add: sample_workspace lit_def startsWith_def)

text \<open>
  C7 as stated fails in both batch backends: the caps of the build command are not
  those of the run command, which has \<open>--pids-limit=64\<close> in addition.
\<close>

theorem build_lacks_pids_limit:
  "caps (words (compileCmd (workspaceDir_of sample_env)))
     \<noteq> caps (words (executeCmd (workspaceDir_of sample_env)))
   \<and> caps (compile_args (workspaceDir_of sample_env))
     \<noteq> caps (execute_args (workspaceDir_of sample_env))"
proof -
  have 1: "32 \<notin> set (workspaceDir_of sample_env)"
    by (simp add: sample_workspace lit_def)
  have 2: "startsWith (workspaceDir_of sample_env) (lit ''/'')"
    by (simp add: sample_workspace lit_def startsWith_def)
  show ?thesis
    by (simp add: caps_compileCmd [OF 1] caps_executeCmd [OF 1] caps_args [OF 2] lit_def)
qed

section \<open>Closing an interactive session\<close>






end
